theory Spec2Isabelle
  imports Complex_Main
begin

section \<open>Python values, dictionaries and exceptions\<close>

text \<open>
  The repository is Python. A \<^verbatim>\<open>dict\<close> is modelled as an association list in
  insertion order with pairwise distinct keys; \<^verbatim>\<open>d[k] = v\<close> replaces the value of an
  existing key in place and appends a new key at the end, as Python does. A \<^verbatim>\<open>float\<close> is
  idealised as a real number, a \<^verbatim>\<open>str\<close> is a list of characters, and a point in time
  (\<^verbatim>\<open>time.time()\<close>, \<^verbatim>\<open>datetime.now()\<close>) is the number of seconds since the epoch.
\<close>

datatype AgentStatus = PENDING | IN_PROGRESS | COMPLETED | FAILED

datatype ResearchQuality = HIGH | MEDIUM | LOW | UNKNOWN

datatype pyval =
    PNone
  | PBool bool
  | PInt int
  | PFloat real
  | PStr string
  | PDatetime real
  | PStatus AgentStatus
  | PQuality ResearchQuality
  | PList "pyval list"
  | PDict "(string \<times> pyval) list"

type_synonym ('k, 'v) dict = "('k \<times> 'v) list"

text \<open>\<^verbatim>\<open>d.get(k)\<close>: the value of the first (and, keys being distinct, only) entry.\<close>

fun dict_get :: "('k, 'v) dict \<Rightarrow> 'k \<Rightarrow> 'v option" where
  "dict_get [] k = None"
| "dict_get ((k', v) # d) k = (if k' = k then Some v else dict_get d k)"

text \<open>\<^verbatim>\<open>d.get(k, default)\<close>.\<close>

definition dict_get_default :: "('k, 'v) dict \<Rightarrow> 'k \<Rightarrow> 'v \<Rightarrow> 'v" where
  "dict_get_default d k dflt = (case dict_get d k of None \<Rightarrow> dflt | Some v \<Rightarrow> v)"

text \<open>\<^verbatim>\<open>d[k] = v\<close>, and also the dictionary display \<^verbatim>\<open>{**d, k: v}\<close> on a copy.\<close>

fun dict_set :: "'k \<Rightarrow> 'v \<Rightarrow> ('k, 'v) dict \<Rightarrow> ('k, 'v) dict" where
  "dict_set k v [] = [(k, v)]"
| "dict_set k v ((k', v') # d) = (if k' = k then (k, v) # d else (k', v') # dict_set k v d)"

text \<open>\<^verbatim>\<open>d.update(other)\<close>: the entries of \<open>other\<close> are written in their order.\<close>

fun dict_update :: "('k, 'v) dict \<Rightarrow> ('k, 'v) dict \<Rightarrow> ('k, 'v) dict" where
  "dict_update d [] = d"
| "dict_update d ((k, v) # kvs) = dict_update (dict_set k v d) kvs"

definition keys :: "('k, 'v) dict \<Rightarrow> 'k list" where
  "keys d = map fst d"

text \<open>
  What a call raises. \<^verbatim>\<open>except Exception\<close> catches every instance of
  \<^verbatim>\<open>Exception\<close> and nothing else: \<^verbatim>\<open>KeyboardInterrupt\<close>, \<^verbatim>\<open>SystemExit\<close> and
  \<^verbatim>\<open>GeneratorExit\<close> derive from \<^verbatim>\<open>BaseException\<close> only and pass through. The
  string is \<^verbatim>\<open>str(e)\<close>.
\<close>

datatype exc = Exception string | BaseException string

section \<open>The shared state (src/state/schema.py)\<close>

text \<open>
  \<^verbatim>\<open>AgentState\<close> is a \<^verbatim>\<open>TypedDict\<close> with \<^verbatim>\<open>total=False\<close>: every key may be
  absent, which is the outer \<open>option\<close> of each field. A field declared
  \<^verbatim>\<open>Optional[T]\<close> may also be present with the value \<^verbatim>\<open>None\<close>, the inner
  \<open>option\<close>.
\<close>

record AgentState =
  topic :: "string option"
  user_requirements :: "string option option"
  target_audience :: "string option option"
  tone :: "string option option"
  word_count :: "int option option"
  research_data :: "string list option"
  research_sources :: "(string, string) dict list option"
  research_quality :: "ResearchQuality option"
  research_timestamp :: "real option option"
  blog_post :: "string option"
  blog_title :: "string option option"
  blog_metadata :: "(string, pyval) dict option option"
  draft_iterations :: "int option"
  editor_feedback :: "string option option"
  quality_score :: "real option option"
  needs_revision :: "bool option"
  agent_status :: "(string, AgentStatus) dict option"
  execution_time :: "(string, real) dict option"
  error_log :: "(string, pyval) dict list option"
  version :: "int option"
  last_modified_by :: "string option option"
  last_modified_at :: "real option option"

text \<open>
  \<^verbatim>\<open>create_initial_state\<close>; the last argument is what \<^verbatim>\<open>datetime.now()\<close> returns.
  The defaults of the Python signature (\<^verbatim>\<open>None\<close>, \<^verbatim>\<open>"general"\<close>,
  \<^verbatim>\<open>"professional"\<close>, \<^verbatim>\<open>500\<close>) are what a caller passes when it omits an argument.
\<close>

definition create_initial_state ::
  "string \<Rightarrow> string option \<Rightarrow> string \<Rightarrow> string \<Rightarrow> int \<Rightarrow> real \<Rightarrow> AgentState" where
  "create_initial_state tp reqs audience tn wc now =
     \<lparr> topic = Some tp,
       user_requirements = Some reqs,
       target_audience = Some (Some audience),
       tone = Some (Some tn),
       word_count = Some (Some wc),
       research_data = Some [],
       research_sources = Some [],
       research_quality = Some UNKNOWN,
       research_timestamp = Some None,
       blog_post = Some [],
       blog_title = Some None,
       blog_metadata = Some None,
       draft_iterations = Some 0,
       editor_feedback = Some None,
       quality_score = Some None,
       needs_revision = Some False,
       agent_status = Some [],
       execution_time = Some [],
       error_log = Some [],
       version = Some 1,
       last_modified_by = Some None,
       last_modified_at = Some (Some now) \<rparr>"

text \<open>
  \<^verbatim>\<open>validate_state\<close>. The loop over \<^verbatim>\<open>required_fields = ["topic"]\<close> has one
  iteration; \<^verbatim>\<open>not state["topic"]\<close> is true of the empty string. The result is the
  pair \<^verbatim>\<open>(is_valid, error_message)\<close>.
\<close>

definition validate_state :: "AgentState \<Rightarrow> bool \<times> string option" where
  "validate_state state =
     (case topic state of
        None \<Rightarrow> (False, Some ''Missing required field: topic'')
      | Some t \<Rightarrow>
          if t = [] then (False, Some ''Missing required field: topic'')
          else if length t < 3 then (False, Some ''Topic must be at least 3 characters long'')
          else if length t > 200 then (False, Some ''Topic must be less than 200 characters'')
          else (True, None))"

section \<open>The execution kernel (src/agents/base.py)\<close>

text \<open>
  The environment of a kernel call. \<open>clock\<close> is the wall clock that \<^verbatim>\<open>time.time()\<close>
  and \<^verbatim>\<open>datetime.now()\<close> read; it moves while the kernel logs, writes the status and
  runs the domain logic, by the seconds given for each of these. The wall clock is not
  monotonic: an amount is negative when the system clock is set back by more than the
  step takes. \<open>isoformat\<close> stands for \<^verbatim>\<open>datetime.isoformat\<close> of the standard
  library.
\<close>

record world =
  clock :: real
  logging_seconds :: real
  status_write_seconds :: real
  isoformat :: "real \<Rightarrow> string"

text \<open>
  A \<^verbatim>\<open>BaseAgent\<close>: its name, its invocation counter, and the abstract method
  \<^verbatim>\<open>execute\<close>, which returns a partial-update dictionary or raises, while the wall
  clock moves by \<open>execute_seconds\<close>. The dictionary that \<^verbatim>\<open>execute\<close> returns may be
  the state object itself (\<^verbatim>\<open>return state\<close>); \<open>returns_state\<close> says whether it is,
  which the contents of the dictionary cannot tell. \<^verbatim>\<open>config\<close> and \<^verbatim>\<open>logger\<close> play
  no part in the result of a call and are left out.
\<close>

record agent =
  name :: string
  execution_count :: int
  execute :: "AgentState \<Rightarrow> exc + (string, pyval) dict"
  execute_seconds :: "AgentState \<Rightarrow> real"
  returns_state :: "AgentState \<Rightarrow> bool"

text \<open>A \<^verbatim>\<open>ConditionalAgent\<close> adds the predicate \<^verbatim>\<open>should_execute\<close>.\<close>

record conditional_agent = agent +
  should_execute :: "AgentState \<Rightarrow> bool"

text \<open>
  What a call leaves behind: the environment, the agent object (its counter), the state
  object, which \<^verbatim>\<open>_update_status\<close> mutates in place and which \<^verbatim>\<open>result.update\<close>
  mutates too when the result is the state object, and what the call returns to its
  caller or raises.
\<close>

record 'a call_result =
  world_after :: world
  agent_after :: 'a
  state_after :: AgentState
  returned :: "exc + (string, pyval) dict"

text \<open>\<^verbatim>\<open>state.get("agent_status", {})\<close> and its two siblings.\<close>

definition get_agent_status :: "AgentState \<Rightarrow> (string, AgentStatus) dict" where
  "get_agent_status state = (case agent_status state of None \<Rightarrow> [] | Some d \<Rightarrow> d)"

definition get_execution_time :: "AgentState \<Rightarrow> (string, real) dict" where
  "get_execution_time state = (case execution_time state of None \<Rightarrow> [] | Some d \<Rightarrow> d)"

definition get_error_log :: "AgentState \<Rightarrow> (string, pyval) dict list" where
  "get_error_log state = (case error_log state of None \<Rightarrow> [] | Some l \<Rightarrow> l)"

text \<open>The typed dictionaries and the error list as values of an update dictionary.\<close>

definition status_dict_val :: "(string, AgentStatus) dict \<Rightarrow> pyval" where
  "status_dict_val d = PDict (map (\<lambda>(k, v). (k, PStatus v)) d)"

definition float_dict_val :: "(string, real) dict \<Rightarrow> pyval" where
  "float_dict_val d = PDict (map (\<lambda>(k, v). (k, PFloat v)) d)"

definition error_log_val :: "(string, pyval) dict list \<Rightarrow> pyval" where
  "error_log_val l = PList (map PDict l)"

text \<open>\<^verbatim>\<open>u[k1][k2]\<close> of an update dictionary, where \<^verbatim>\<open>u[k1]\<close> is a dictionary.\<close>

definition dict_get2 :: "(string, pyval) dict \<Rightarrow> string \<Rightarrow> string \<Rightarrow> pyval option" where
  "dict_get2 u k1 k2 = (case dict_get u k1 of Some (PDict d) \<Rightarrow> dict_get d k2 | _ \<Rightarrow> None)"

text \<open>The keys of \<^verbatim>\<open>u[k1]\<close>, in order, where \<^verbatim>\<open>u[k1]\<close> is a dictionary.\<close>

definition dict_keys2 :: "(string, pyval) dict \<Rightarrow> string \<Rightarrow> string list option" where
  "dict_keys2 u k1 = (case dict_get u k1 of Some (PDict d) \<Rightarrow> Some (keys d) | _ \<Rightarrow> None)"

text \<open>\<^verbatim>\<open>u["error_log"]\<close> of an update dictionary, as a list.\<close>

definition update_error_log :: "(string, pyval) dict \<Rightarrow> pyval list option" where
  "update_error_log u = (case dict_get u ''error_log'' of Some (PList l) \<Rightarrow> Some l | _ \<Rightarrow> None)"

text \<open>\<^verbatim>\<open>BaseAgent._update_status\<close>: creates the status map when it is absent.\<close>

definition update_status :: "string \<Rightarrow> AgentState \<Rightarrow> AgentStatus \<Rightarrow> AgentState" where
  "update_status nm state st =
     state\<lparr>agent_status := Some (dict_set nm st (get_agent_status state))\<rparr>"

text \<open>One call into the logger: only the time it takes is kept.\<close>

definition logger_call :: "world \<Rightarrow> world" where
  "logger_call w = w\<lparr>clock := clock w + logging_seconds w\<rparr>"

text \<open>The dictionary \<^verbatim>\<open>error_entry\<close> that the handler builds.\<close>

definition error_entry :: "string \<Rightarrow> string \<Rightarrow> string \<Rightarrow> int \<Rightarrow> (string, pyval) dict" where
  "error_entry nm msg ts cnt =
     [(''agent'', PStr nm), (''error'', PStr msg), (''timestamp'', PStr ts),
      (''execution_count'', PInt cnt)]"

text \<open>The four keys that the success path writes with \<^verbatim>\<open>result.update\<close>.\<close>

definition metadata_keys :: "string list" where
  "metadata_keys = [''last_modified_by'', ''last_modified_at'', ''execution_time'', ''agent_status'']"

text \<open>
  \<^verbatim>\<open>BaseAgent.__call__\<close>, statement by statement. The start time is read first, then
  the start is logged and the status written, then \<^verbatim>\<open>execute\<close> runs on the state
  object as \<^verbatim>\<open>_update_status\<close> left it. The domain logic is taken as a function of
  the state (the specification's agent contract). \<^verbatim>\<open>result.update\<close> writes into the
  dictionary that \<^verbatim>\<open>execute\<close> returned: when that is the state object, the four
  metadata fields of the state are written as well; otherwise, and on the failure path,
  where the handler builds a new dictionary, the state object after the call is the one
  \<^verbatim>\<open>_update_status\<close> produced. An instance of \<^verbatim>\<open>Exception\<close> goes to the handler;
  anything else that is raised leaves the call.
\<close>

definition BaseAgent_call ::
  "world \<Rightarrow> 'a agent_scheme \<Rightarrow> AgentState \<Rightarrow> 'a agent_scheme call_result" where
  "BaseAgent_call w a state =
     (let a1 = a\<lparr>execution_count := execution_count a + 1\<rparr>;
          start_time = clock w;
          w1 = logger_call w;
          state1 = update_status (name a1) state IN_PROGRESS;
          w2 = w1\<lparr>clock := clock w1 + status_write_seconds w1\<rparr>;
          w3 = w2\<lparr>clock := clock w2 + execute_seconds a1 state1\<rparr>
      in case execute a1 state1 of
           Inr result \<Rightarrow>
             (let elapsed = clock w3 - start_time;
                  result' = dict_update result
                    [(''last_modified_by'', PStr (name a1)),
                     (''last_modified_at'', PDatetime (clock w3)),
                     (''execution_time'',
                        float_dict_val (dict_set (name a1) elapsed (get_execution_time state1))),
                     (''agent_status'',
                        status_dict_val (dict_set (name a1) COMPLETED (get_agent_status state1)))];
                  state2 =
                    (if returns_state a1 state1 then
                       state1\<lparr> last_modified_by := Some (Some (name a1)),
                               last_modified_at := Some (Some (clock w3)),
                               execution_time :=
                                 Some (dict_set (name a1) elapsed (get_execution_time state1)),
                               agent_status :=
                                 Some (dict_set (name a1) COMPLETED (get_agent_status state1)) \<rparr>
                     else state1)
              in \<lparr> world_after = logger_call w3, agent_after = a1, state_after = state2,
                   returned = Inr result' \<rparr>)
         | Inl (Exception msg) \<Rightarrow>
             (let elapsed = clock w3 - start_time;
                  w4 = logger_call w3;
                  entry = error_entry (name a1) msg (isoformat w4 (clock w4)) (execution_count a1)
              in \<lparr> world_after = w4, agent_after = a1, state_after = state1,
                   returned = Inr
                     [(''agent_status'',
                         status_dict_val (dict_set (name a1) FAILED (get_agent_status state1))),
                      (''error_log'', error_log_val (get_error_log state1 @ [entry])),
                      (''execution_time'',
                         float_dict_val (dict_set (name a1) elapsed (get_execution_time state1)))] \<rparr>)
         | Inl (BaseException msg) \<Rightarrow>
             \<lparr> world_after = w3, agent_after = a1, state_after = state1,
               returned = Inl (BaseException msg) \<rparr>)"

text \<open>
  \<^verbatim>\<open>ConditionalAgent.__call__\<close>: when the predicate is false the skip is logged and a
  one-key dictionary returned; otherwise the call is \<^verbatim>\<open>super().__call__(state)\<close>.
\<close>

definition ConditionalAgent_call ::
  "world \<Rightarrow> 'a conditional_agent_scheme \<Rightarrow> AgentState
     \<Rightarrow> 'a conditional_agent_scheme call_result" where
  "ConditionalAgent_call w a state =
     (if \<not> should_execute a state then
        \<lparr> world_after = logger_call w, agent_after = a, state_after = state,
          returned = Inr
            [(''agent_status'',
                status_dict_val (dict_set (name a) COMPLETED (get_agent_status state)))] \<rparr>
      else BaseAgent_call w a state)"

section \<open>The search providers (src/tools/search.py)\<close>

text \<open>
  What the search libraries and the HTTP endpoints hand back is JSON-shaped data. A
  result record of a provider is a dictionary with the keys \<^verbatim>\<open>title\<close>, \<^verbatim>\<open>link\<close> and
  \<^verbatim>\<open>snippet\<close>.
\<close>

datatype json =
    JNull
  | JBool bool
  | JNum real
  | JStr string
  | JArr "json list"
  | JObj "(string \<times> json) list"

type_synonym search_result = "(string, json) dict"

text \<open>
  An HTTP response: \<^verbatim>\<open>raise_for_status()\<close> raises on a 4xx or 5xx status, and
  \<^verbatim>\<open>json()\<close> returns the decoded body or raises when the body does not parse.
\<close>

record response =
  status_code :: int
  json_body :: "exc + json"

text \<open>
  The network as the providers see it: \<open>ddgs_text\<close> is \<^verbatim>\<open>DDGS().text\<close> of the
  duckduckgo-search library, which hands back the items or raises (when it raises after
  some items, the handler drops them with the rest); \<open>http_post\<close> is
  \<^verbatim>\<open>requests.Session.post\<close> with the URL, the JSON payload, the headers and the
  timeout.
\<close>

record net =
  ddgs_text :: "string \<Rightarrow> int \<Rightarrow> exc + json list"
  http_post :: "string \<Rightarrow> (string, json) dict \<Rightarrow> (string, string) dict \<Rightarrow> int \<Rightarrow> exc + response"

text \<open>\<^verbatim>\<open>xs[:n]\<close>: a negative \<open>n\<close> counts from the end.\<close>

definition py_slice_to :: "'a list \<Rightarrow> int \<Rightarrow> 'a list" where
  "py_slice_to xs n = (if 0 \<le> n then take (nat n) xs else take (nat (int (length xs) + n)) xs)"

text \<open>
  One iteration of a provider's loop: \<^verbatim>\<open>item.get\<close> exists on a dictionary only, and
  each of the three values defaults to the empty string.
\<close>

definition result_record :: "string \<Rightarrow> string \<Rightarrow> json \<Rightarrow> exc + search_result" where
  "result_record link_key snippet_key item =
     (case item of
        JObj d \<Rightarrow> Inr [(''title'', dict_get_default d ''title'' (JStr [])),
                       (''link'', dict_get_default d link_key (JStr [])),
                       (''snippet'', dict_get_default d snippet_key (JStr []))]
      | _ \<Rightarrow> Inl (Exception ''object has no attribute get''))"

text \<open>The loop \<^verbatim>\<open>for item in ...: results.append(...)\<close>: the first raise ends it.\<close>

fun collect_results :: "(json \<Rightarrow> exc + search_result) \<Rightarrow> json list \<Rightarrow> exc + search_result list" where
  "collect_results f [] = Inr []"
| "collect_results f (x # xs) =
     (case f x of
        Inl e \<Rightarrow> Inl e
      | Inr r \<Rightarrow> (case collect_results f xs of Inl e \<Rightarrow> Inl e | Inr rs \<Rightarrow> Inr (r # rs)))"

text \<open>
  \<^verbatim>\<open>data.get(key, [])[:n]\<close> as the sequence the loop iterates: \<^verbatim>\<open>get\<close> exists on
  a dictionary only; a list and a string can be sliced (a string yields its characters),
  any other value raises.
\<close>

definition sliced_items :: "json \<Rightarrow> string \<Rightarrow> int \<Rightarrow> exc + json list" where
  "sliced_items data key n =
     (case data of
        JObj d \<Rightarrow>
          (case dict_get_default d key (JArr []) of
             JArr xs \<Rightarrow> Inr (py_slice_to xs n)
           | JStr cs \<Rightarrow> Inr (map (\<lambda>c. JStr [c]) (py_slice_to cs n))
           | JObj _ \<Rightarrow> Inl (Exception ''dict cannot be sliced'')
           | _ \<Rightarrow> Inl (Exception ''object is not subscriptable''))
      | _ \<Rightarrow> Inl (Exception ''object has no attribute get''))"

text \<open>\<^verbatim>\<open>response.raise_for_status()\<close>.\<close>

definition raise_for_status :: "response \<Rightarrow> exc + unit" where
  "raise_for_status r =
     (if 400 \<le> status_code r \<and> status_code r < 600 then Inl (Exception ''HTTPError'') else Inr ())"

text \<open>
  \<^verbatim>\<open>try: ... except Exception as e: log; return []\<close>, the handler that all three
  providers share.
\<close>

definition except_Exception_empty :: "exc + search_result list \<Rightarrow> exc + search_result list" where
  "except_Exception_empty body =
     (case body of
        Inr results \<Rightarrow> Inr results
      | Inl (Exception msg) \<Rightarrow> Inr []
      | Inl (BaseException msg) \<Rightarrow> Inl (BaseException msg))"

text \<open>The body of the \<^verbatim>\<open>try\<close> block of \<^verbatim>\<open>DuckDuckGoSearch.search\<close>.\<close>

definition DuckDuckGoSearch_try :: "net \<Rightarrow> string \<Rightarrow> int \<Rightarrow> exc + search_result list" where
  "DuckDuckGoSearch_try nw query limit =
     (case ddgs_text nw query limit of
        Inl e \<Rightarrow> Inl e
      | Inr items \<Rightarrow> collect_results (result_record ''href'' ''body'') items)"

definition DuckDuckGoSearch_search :: "net \<Rightarrow> string \<Rightarrow> int \<Rightarrow> exc + search_result list" where
  "DuckDuckGoSearch_search nw query limit = except_Exception_empty (DuckDuckGoSearch_try nw query limit)"

text \<open>
  The part of the \<^verbatim>\<open>try\<close> blocks of \<^verbatim>\<open>SerperSearch.search\<close> and
  \<^verbatim>\<open>TavilySearch.search\<close> that follows the request: status check, decoding, slicing,
  loop.
\<close>

definition read_response ::
  "exc + response \<Rightarrow> string \<Rightarrow> string \<Rightarrow> string \<Rightarrow> int \<Rightarrow> exc + search_result list" where
  "read_response posted list_key link_key snippet_key limit =
     (case posted of
        Inl e \<Rightarrow> Inl e
      | Inr r \<Rightarrow>
          (case raise_for_status r of
             Inl e \<Rightarrow> Inl e
           | Inr _ \<Rightarrow>
               (case json_body r of
                  Inl e \<Rightarrow> Inl e
                | Inr data \<Rightarrow>
                    (case sliced_items data list_key limit of
                       Inl e \<Rightarrow> Inl e
                     | Inr items \<Rightarrow> collect_results (result_record link_key snippet_key) items))))"

definition SerperSearch_try :: "net \<Rightarrow> string \<Rightarrow> int \<Rightarrow> string \<Rightarrow> int \<Rightarrow> exc + search_result list" where
  "SerperSearch_try nw api_key tmo query limit =
     read_response
       (http_post nw ''https://google.serper.dev/search''
          [(''q'', JStr query), (''num'', JNum (real_of_int limit))]
          [(''X-API-KEY'', api_key), (''Content-Type'', ''application/json'')]
          tmo)
       ''organic'' ''link'' ''snippet'' limit"

definition SerperSearch_search :: "net \<Rightarrow> string \<Rightarrow> int \<Rightarrow> string \<Rightarrow> int \<Rightarrow> exc + search_result list" where
  "SerperSearch_search nw api_key tmo query limit =
     except_Exception_empty (SerperSearch_try nw api_key tmo query limit)"

definition TavilySearch_try :: "net \<Rightarrow> string \<Rightarrow> int \<Rightarrow> string \<Rightarrow> int \<Rightarrow> exc + search_result list" where
  "TavilySearch_try nw api_key tmo query limit =
     read_response
       (http_post nw ''https://api.tavily.com/search''
          [(''api_key'', JStr api_key), (''query'', JStr query),
           (''max_results'', JNum (real_of_int limit)), (''search_depth'', JStr ''advanced'')]
          []
          tmo)
       ''results'' ''url'' ''content'' limit"

definition TavilySearch_search :: "net \<Rightarrow> string \<Rightarrow> int \<Rightarrow> string \<Rightarrow> int \<Rightarrow> exc + search_result list" where
  "TavilySearch_search nw api_key tmo query limit =
     except_Exception_empty (TavilySearch_try nw api_key tmo query limit)"

text \<open>The three provider classes with their constructor arguments, and the dispatch
  of \<^verbatim>\<open>provider.search\<close>, split into the \<^verbatim>\<open>try\<close> block and the whole method.\<close>

datatype SearchProvider =
    DuckDuckGoSearch int
  | SerperSearch string int
  | TavilySearch string int

fun provider_try :: "net \<Rightarrow> SearchProvider \<Rightarrow> string \<Rightarrow> int \<Rightarrow> exc + search_result list" where
  "provider_try nw (DuckDuckGoSearch tmo) query limit = DuckDuckGoSearch_try nw query limit"
| "provider_try nw (SerperSearch api_key tmo) query limit = SerperSearch_try nw api_key tmo query limit"
| "provider_try nw (TavilySearch api_key tmo) query limit = TavilySearch_try nw api_key tmo query limit"

fun provider_search :: "net \<Rightarrow> SearchProvider \<Rightarrow> string \<Rightarrow> int \<Rightarrow> exc + search_result list" where
  "provider_search nw (DuckDuckGoSearch tmo) query limit = DuckDuckGoSearch_search nw query limit"
| "provider_search nw (SerperSearch api_key tmo) query limit =
     SerperSearch_search nw api_key tmo query limit"
| "provider_search nw (TavilySearch api_key tmo) query limit =
     TavilySearch_search nw api_key tmo query limit"

text \<open>
  \<^verbatim>\<open>SearchTool\<close>. The constructor raises \<^verbatim>\<open>ValueError\<close> for an unknown provider
  and for a key-authenticated provider without a key (\<^verbatim>\<open>not api_key\<close> holds of
  \<^verbatim>\<open>None\<close> and of the empty string), and \<^verbatim>\<open>ImportError\<close> when the DuckDuckGo
  library could not be imported.
\<close>

record SearchTool =
  max_results :: int
  provider :: SearchProvider

definition SearchTool_init ::
  "bool \<Rightarrow> string \<Rightarrow> int \<Rightarrow> int \<Rightarrow> string option \<Rightarrow> exc + SearchTool" where
  "SearchTool_init duckduckgo_available pname limit tmo api_key =
     (if pname = ''duckduckgo'' then
        (if \<not> duckduckgo_available then
           Inl (Exception
             ''duckduckgo-search not installed. Install with: pip install duckduckgo-search'')
         else Inr \<lparr> max_results = limit, provider = DuckDuckGoSearch tmo \<rparr>)
      else if pname = ''serper'' then
        (case api_key of
           None \<Rightarrow> Inl (Exception ''Serper requires API key'')
         | Some k \<Rightarrow> if k = [] then Inl (Exception ''Serper requires API key'')
                     else Inr \<lparr> max_results = limit, provider = SerperSearch k tmo \<rparr>)
      else if pname = ''tavily'' then
        (case api_key of
           None \<Rightarrow> Inl (Exception ''Tavily requires API key'')
         | Some k \<Rightarrow> if k = [] then Inl (Exception ''Tavily requires API key'')
                     else Inr \<lparr> max_results = limit, provider = TavilySearch k tmo \<rparr>)
      else Inl (Exception (''Unknown search provider: '' @ pname)))"

text \<open>\<^verbatim>\<open>a or b\<close> on an optional integer: \<^verbatim>\<open>None\<close> and \<^verbatim>\<open>0\<close> are falsy.\<close>

definition py_or :: "int option \<Rightarrow> int \<Rightarrow> int" where
  "py_or a b = (case a of None \<Rightarrow> b | Some n \<Rightarrow> if n = 0 then b else n)"

text \<open>\<^verbatim>\<open>SearchTool.search\<close>.\<close>

definition SearchTool_search ::
  "net \<Rightarrow> SearchTool \<Rightarrow> string \<Rightarrow> int option \<Rightarrow> exc + search_result list" where
  "SearchTool_search nw tool query override =
     (let results_limit = py_or override (max_results tool)
      in provider_search nw (provider tool) query results_limit)"

section \<open>Concrete agents, states and networks\<close>

definition example_world :: world where
  "example_world = \<lparr> clock = 100, logging_seconds = 1, status_write_seconds = 1,
                      isoformat = (\<lambda>t. ''2024-01-01T00:00:00'') \<rparr>"

definition example_state :: AgentState where
  "example_state = create_initial_state ''Rust ownership'' None ''general'' ''professional'' 500 100"

definition writer_agent :: agent where
  "writer_agent = \<lparr> name = ''Writer'', execution_count = 0,
                     execute = (\<lambda>s. Inr [(''draft'', PStr ''hello'')]),
                     execute_seconds = (\<lambda>s. 2), returns_state = (\<lambda>s. False) \<rparr>"

definition set_back_writer :: agent where
  "set_back_writer = \<lparr> name = ''Writer'', execution_count = 0,
                        execute = (\<lambda>s. Inr [(''draft'', PStr ''hello'')]),
                        execute_seconds = (\<lambda>s. - 5), returns_state = (\<lambda>s. False) \<rparr>"

definition log_wiping_agent :: agent where
  "log_wiping_agent = \<lparr> name = ''Writer'', execution_count = 0,
                         execute = (\<lambda>s. Inr [(''error_log'', PList [])]),
                         execute_seconds = (\<lambda>s. 2), returns_state = (\<lambda>s. False) \<rparr>"

definition failing_agent :: agent where
  "failing_agent = \<lparr> name = ''Researcher'', execution_count = 0,
                      execute = (\<lambda>s. Inl (Exception ''boom'')),
                      execute_seconds = (\<lambda>s. 2), returns_state = (\<lambda>s. False) \<rparr>"

definition overriding_agent :: agent where
  "overriding_agent = \<lparr> name = ''Editor'', execution_count = 0,
                         execute = (\<lambda>s. Inr [(''last_modified_by'', PStr ''Mallory'')]),
                         execute_seconds = (\<lambda>s. 2), returns_state = (\<lambda>s. False) \<rparr>"

definition skipped_editor :: conditional_agent where
  "skipped_editor = \<lparr> name = ''Editor'', execution_count = 0,
                       execute = (\<lambda>s. Inr [(''editor_feedback'', PStr ''fine'')]),
                       execute_seconds = (\<lambda>s. 2), returns_state = (\<lambda>s. False),
                       should_execute = (\<lambda>s. False) \<rparr>"

definition unreachable_net :: net where
  "unreachable_net = \<lparr> ddgs_text = (\<lambda>q n. Inl (Exception ''ConnectTimeout'')),
                        http_post = (\<lambda>url payload headers tmo. Inl (Exception ''ConnectionError'')) \<rparr>"

definition answering_net :: net where
  "answering_net =
     \<lparr> ddgs_text = (\<lambda>q n. Inr []),
       http_post = (\<lambda>url payload headers tmo. Inr
         \<lparr> status_code = 200,
           json_body = Inr (JObj [(''organic'',
             JArr [JObj [(''title'', JStr ''A''), (''link'', JStr ''a.org''), (''snippet'', JStr ''x'')],
                   JObj [(''title'', JStr ''B''), (''link'', JStr ''b.org'')]])]) \<rparr>) \<rparr>"

definition example_tool :: SearchTool where
  "example_tool = \<lparr> max_results = 5, provider = SerperSearch ''key'' 10 \<rparr>"

definition revisited_state :: AgentState where
  "revisited_state = example_state
     \<lparr> agent_status := Some [(''Researcher'', COMPLETED), (''Writer'', COMPLETED)],
       execution_time := Some [(''Researcher'', 3), (''Writer'', 7)] \<rparr>"

definition logged_state :: AgentState where
  "logged_state = example_state
     \<lparr> error_log := Some [[(''agent'', PStr ''Researcher''), (''error'', PStr ''boom''),
                            (''timestamp'', PStr ''2024-01-01T00:00:00''),
                            (''execution_count'', PInt 1)]] \<rparr>"

section \<open>Dictionary facts\<close>

lemma dict_get_set: "dict_get (dict_set k v d) k' = (if k' = k then Some v else dict_get d k')"
  by (induction d) auto

lemma dict_get_map_val: "dict_get (map (\<lambda>(k, v). (k, f v)) d) k = map_option f (dict_get d k)"
  by (induction d) auto

lemma keys_dict_set_present: "k \<in> set (keys d) \<Longrightarrow> keys (dict_set k v d) = keys d"
  unfolding keys_def by (induction d) force+

lemma keys_dict_set_absent: "k \<notin> set (keys d) \<Longrightarrow> keys (dict_set k v d) = keys d @ [k]"
  by (induction d) (auto simp: keys_def)

lemma set_keys_dict_set: "set (keys (dict_set k v d)) = insert k (set (keys d))"
  unfolding keys_def by (induction d) force+

lemma distinct_keys_dict_set: "distinct (keys d) \<Longrightarrow> distinct (keys (dict_set k v d))"
  by (cases "k \<in> set (keys d)") (simp_all add: keys_dict_set_present keys_dict_set_absent)

lemma dict_set_twice: "dict_set k v (dict_set k v' d) = dict_set k v d"
  by (induction d) auto

lemma dict_get_None_iff: "dict_get d k = None \<longleftrightarrow> k \<notin> set (keys d)"
  unfolding keys_def by (induction d) force+

lemma get_agent_status_update_status:
  "get_agent_status (update_status nm s st) = dict_set nm st (get_agent_status s)"
  by (simp add: update_status_def get_agent_status_def)

lemma get_execution_time_update_status:
  "get_execution_time (update_status nm s st) = get_execution_time s"
  by (simp add: update_status_def get_execution_time_def)

lemma get_error_log_update_status:
  "get_error_log (update_status nm s st) = get_error_log s"
  by (simp add: update_status_def get_error_log_def)

lemma set_keys_dict_update:
  "set (keys (dict_update d kvs)) = set (keys d) \<union> set (keys kvs)"
proof (induction kvs arbitrary: d)
  case Nil
  show ?case by (simp add: keys_def)
next
  case (Cons kv kvs)
  obtain k v where kv: "kv = (k, v)" by (cases kv)
  have "set (keys (dict_update (dict_set k v d) kvs)) = insert k (set (keys d)) \<union> set (keys kvs)"
    by (simp add: Cons.IH set_keys_dict_set)
  then show ?case
    by (simp add: kv keys_def)
qed

lemma dict_get_dict_update_other:
  "k \<notin> set (keys kvs) \<Longrightarrow> dict_get (dict_update d kvs) k = dict_get d k"
proof (induction kvs arbitrary: d)
  case Nil
  show ?case by simp
next
  case (Cons kv kvs)
  obtain k' v where kv: "kv = (k', v)" by (cases kv)
  from Cons.prems have ne: "k' \<noteq> k" and rest: "k \<notin> set (keys kvs)"
    by (auto simp: kv keys_def)
  show ?case
    by (simp add: kv Cons.IH [OF rest] dict_get_set ne [symmetric])
qed

lemma dict_get_dict_update_written:
  "distinct (keys kvs) \<Longrightarrow> dict_get kvs k = Some v \<Longrightarrow> dict_get (dict_update d kvs) k = Some v"
proof (induction kvs arbitrary: d)
  case Nil
  then show ?case by simp
next
  case (Cons kv kvs)
  obtain k' v' where kv: "kv = (k', v')" by (cases kv)
  from Cons.prems(1) have dk: "distinct (keys kvs)" and nk: "k' \<notin> set (keys kvs)"
    by (simp_all add: kv keys_def)
  show ?case
  proof (cases "k' = k")
    case True
    with Cons.prems(2) have "v' = v" by (simp add: kv)
    with True nk show ?thesis
      by (simp add: kv dict_get_dict_update_other dict_get_set)
  next
    case False
    with Cons.prems(2) have "dict_get kvs k = Some v" by (simp add: kv)
    from Cons.IH [OF dk this] show ?thesis by (simp add: kv)
  qed
qed

lemma distinct_keys_dict_update:
  "distinct (keys d) \<Longrightarrow> distinct (keys (dict_update d kvs))"
proof (induction kvs arbitrary: d)
  case Nil
  then show ?case by simp
next
  case (Cons kv kvs)
  obtain k v where kv: "kv = (k, v)" by (cases kv)
  from Cons.prems have "distinct (keys (dict_set k v d))"
    by (rule distinct_keys_dict_set)
  from Cons.IH [OF this] show ?case by (simp add: kv)
qed


section \<open>What a kernel call returns and leaves behind\<close>

lemma failure_returned:
  assumes "execute a (update_status (name a) s IN_PROGRESS) = Inl (Exception m)"
  shows "returned (BaseAgent_call w a s) = Inr
     [(''agent_status'', status_dict_val (dict_set (name a) FAILED (get_agent_status s))),
      (''error_log'', error_log_val (get_error_log s @
          [error_entry (name a) m (isoformat w (clock (world_after (BaseAgent_call w a s))))
             (execution_count a + 1)])),
      (''execution_time'', float_dict_val (dict_set (name a)
          (logging_seconds w + status_write_seconds w
             + execute_seconds a (update_status (name a) s IN_PROGRESS))
          (get_execution_time s)))]"
  using assms
  by (simp add: BaseAgent_call_def Let_def logger_call_def get_agent_status_update_status
      get_execution_time_update_status get_error_log_update_status dict_set_twice add.assoc)

lemma success_returned:
  assumes "execute a (update_status (name a) s IN_PROGRESS) = Inr r"
  shows "returned (BaseAgent_call w a s) = Inr (dict_update r
     [(''last_modified_by'', PStr (name a)),
      (''last_modified_at'', PDatetime (clock w + logging_seconds w + status_write_seconds w
             + execute_seconds a (update_status (name a) s IN_PROGRESS))),
      (''execution_time'', float_dict_val (dict_set (name a)
          (logging_seconds w + status_write_seconds w
             + execute_seconds a (update_status (name a) s IN_PROGRESS))
          (get_execution_time s))),
      (''agent_status'', status_dict_val (dict_set (name a) COMPLETED (get_agent_status s)))])"
  using assms
  by (simp add: BaseAgent_call_def Let_def logger_call_def get_agent_status_update_status
      get_execution_time_update_status get_error_log_update_status dict_set_twice add.assoc)

lemma agent_after_call:
  "agent_after (BaseAgent_call w a s) = a\<lparr>execution_count := execution_count a + 1\<rparr>"
  by (simp add: BaseAgent_call_def Let_def split: sum.splits exc.splits)

lemma state_after_version:
  "version (state_after (BaseAgent_call w a s)) = version s"
  by (simp add: BaseAgent_call_def Let_def update_status_def split: sum.splits exc.splits)

lemma state_after_error_log:
  "get_error_log (state_after (BaseAgent_call w a s)) = get_error_log s"
  by (simp add: BaseAgent_call_def Let_def update_status_def get_error_log_def
      split: sum.splits exc.splits)

lemma keys_map_val: "keys (map (\<lambda>(k, v). (k, f v)) d) = keys d"
  by (induction d) (auto simp: keys_def)

lemma dict_keys2_status:
  "dict_get u ''agent_status'' = Some (status_dict_val d) \<Longrightarrow>
   dict_keys2 u ''agent_status'' = Some (keys d)"
  by (simp add: dict_keys2_def status_dict_val_def keys_map_val)

lemma dict_keys2_time:
  "dict_get u ''execution_time'' = Some (float_dict_val d) \<Longrightarrow>
   dict_keys2 u ''execution_time'' = Some (keys d)"
  by (simp add: dict_keys2_def float_dict_val_def keys_map_val)

lemma update_error_log_failure:
  "update_error_log [(''agent_status'', x), (''error_log'', error_log_val l), (''execution_time'', y)]
     = Some (map PDict l)"
  by (simp add: update_error_log_def error_log_val_def)

lemma dict_get2_status:
  "dict_get u ''agent_status'' = Some (status_dict_val d) \<Longrightarrow>
   dict_get2 u ''agent_status'' k = map_option PStatus (dict_get d k)"
  by (simp add: dict_get2_def status_dict_val_def dict_get_map_val)

lemma dict_get2_time:
  "dict_get u ''execution_time'' = Some (float_dict_val d) \<Longrightarrow>
   dict_get2 u ''execution_time'' k = map_option PFloat (dict_get d k)"
  by (simp add: dict_get2_def float_dict_val_def dict_get_map_val)


lemma failing_agent_raises:
  "execute failing_agent (update_status (name failing_agent) s IN_PROGRESS) = Inl (Exception ''boom'')"
  by (simp add: failing_agent_def)

lemma example_state_fields:
  "get_agent_status example_state = []" "get_execution_time example_state = []"
  "get_error_log example_state = []"
  by (simp_all add: example_state_def create_initial_state_def get_agent_status_def
      get_execution_time_def get_error_log_def)


lemma writer_agent_returns:
  "execute writer_agent (update_status (name writer_agent) s IN_PROGRESS) = Inr [(''draft'', PStr ''hello'')]"
  by (simp add: writer_agent_def)

lemma failed_call_example:
  "returned (BaseAgent_call example_world failing_agent example_state) = Inr
     [(''agent_status'', PDict [(''Researcher'', PStatus FAILED)]),
      (''error_log'', PList [PDict (error_entry ''Researcher'' ''boom'' ''2024-01-01T00:00:00'' 1)]),
      (''execution_time'', PDict [(''Researcher'', PFloat 4)])]"
  by (simp add: failure_returned [OF failing_agent_raises] example_state_fields
      status_dict_val_def float_dict_val_def error_log_val_def)
    (simp add: failing_agent_def example_world_def)

lemma successful_call_example:
  "returned (BaseAgent_call example_world writer_agent example_state) = Inr
     [(''draft'', PStr ''hello''),
      (''last_modified_by'', PStr ''Writer''),
      (''last_modified_at'', PDatetime 104),
      (''execution_time'', PDict [(''Writer'', PFloat 4)]),
      (''agent_status'', PDict [(''Writer'', PStatus COMPLETED)])]"
  by (simp add: success_returned [OF writer_agent_returns] example_state_fields
      status_dict_val_def float_dict_val_def)
    (simp add: writer_agent_def example_world_def)

lemma set_back_writer_returns:
  "execute set_back_writer (update_status (name set_back_writer) s IN_PROGRESS)
     = Inr [(''draft'', PStr ''hello'')]"
  by (simp add: set_back_writer_def)

lemma set_back_call_example:
  "returned (BaseAgent_call example_world set_back_writer example_state) = Inr
     [(''draft'', PStr ''hello''),
      (''last_modified_by'', PStr ''Writer''),
      (''last_modified_at'', PDatetime 97),
      (''execution_time'', PDict [(''Writer'', PFloat (- 3))]),
      (''agent_status'', PDict [(''Writer'', PStatus COMPLETED)])]"
  by (simp add: success_returned [OF set_back_writer_returns] example_state_fields
      status_dict_val_def float_dict_val_def)
    (simp add: set_back_writer_def example_world_def)

lemma log_wiping_agent_returns:
  "execute log_wiping_agent (update_status (name log_wiping_agent) s IN_PROGRESS)
     = Inr [(''error_log'', PList [])]"
  by (simp add: log_wiping_agent_def)

lemma logged_state_fields:
  "get_agent_status logged_state = []" "get_execution_time logged_state = []"
  "get_error_log logged_state =
     [[(''agent'', PStr ''Researcher''), (''error'', PStr ''boom''),
       (''timestamp'', PStr ''2024-01-01T00:00:00''), (''execution_count'', PInt 1)]]"
  by (simp_all add: logged_state_def example_state_def create_initial_state_def
      get_agent_status_def get_execution_time_def get_error_log_def)

lemma log_wiping_call_example:
  "returned (BaseAgent_call example_world log_wiping_agent logged_state) = Inr
     [(''error_log'', PList []),
      (''last_modified_by'', PStr ''Writer''),
      (''last_modified_at'', PDatetime 104),
      (''execution_time'', PDict [(''Writer'', PFloat 4)]),
      (''agent_status'', PDict [(''Writer'', PStatus COMPLETED)])]"
  by (simp add: success_returned [OF log_wiping_agent_returns] logged_state_fields
      status_dict_val_def float_dict_val_def)
    (simp add: log_wiping_agent_def example_world_def)

lemma failure_log:
  assumes "execute a (update_status (name a) s IN_PROGRESS) = Inl (Exception m)"
  shows "\<exists>u ts. returned (BaseAgent_call w a s) = Inr u
      \<and> update_error_log u = Some (map PDict (get_error_log s)
            @ [PDict (error_entry (name a) m ts (execution_count a + 1))])"
  by (intro exI [where x = "projr (returned (BaseAgent_call w a s))"]
      exI [where x = "isoformat w (clock (world_after (BaseAgent_call w a s)))"])
    (simp add: failure_returned [OF assms] update_error_log_failure)

lemma success_status_overwrite:
  assumes "dict_get d nm = Some old" and "distinct (keys d)"
  shows "keys (dict_set nm v d) = keys d" and "distinct (keys (dict_set nm v d))"
    and "dict_get (dict_set nm v d) nm = Some v"
    and "\<forall>k. k \<noteq> nm \<longrightarrow> dict_get (dict_set nm v d) k = dict_get d k"
proof -
  from assms(1) have "nm \<in> set (keys d)"
    using dict_get_None_iff [of d nm] by simp
  then show "keys (dict_set nm v d) = keys d"
    by (rule keys_dict_set_present)
  with assms(2) show "distinct (keys (dict_set nm v d))"
    by simp
  show "dict_get (dict_set nm v d) nm = Some v"
    by (simp add: dict_get_set)
  show "\<forall>k. k \<noteq> nm \<longrightarrow> dict_get (dict_set nm v d) k = dict_get d k"
    by (simp add: dict_get_set)
qed

lemma revisited_state_fields:
  "get_agent_status revisited_state = [(''Researcher'', COMPLETED), (''Writer'', COMPLETED)]"
  "get_execution_time revisited_state = [(''Researcher'', 3), (''Writer'', 7)]"
  by (simp_all add: revisited_state_def get_agent_status_def get_execution_time_def)

section \<open>Facts about the search providers\<close>

lemma provider_search_handler:
  "provider_search nw p q n = except_Exception_empty (provider_try nw p q n)"
  by (cases p)
    (simp_all add: DuckDuckGoSearch_search_def SerperSearch_search_def TavilySearch_search_def)

lemma except_Exception_empty_no_Exception:
  "except_Exception_empty body \<noteq> Inl (Exception msg)"
  by (simp add: except_Exception_empty_def split: sum.splits exc.splits)

lemma except_Exception_empty_caught:
  "body = Inl (Exception m) \<Longrightarrow> except_Exception_empty body = Inr []"
  by (simp add: except_Exception_empty_def)

lemma read_response_transport:
  "posted = Inl (Exception m) \<Longrightarrow>
   except_Exception_empty (read_response posted lk k1 k2 n) = Inr []"
  by (simp add: read_response_def except_Exception_empty_def)

lemma read_response_status:
  "posted = Inr resp \<Longrightarrow> 400 \<le> status_code resp \<and> status_code resp < 600 \<Longrightarrow>
   except_Exception_empty (read_response posted lk k1 k2 n) = Inr []"
  by (simp add: read_response_def except_Exception_empty_def raise_for_status_def)

lemma read_response_parse:
  "posted = Inr resp \<Longrightarrow> json_body resp = Inl (Exception m) \<Longrightarrow>
   except_Exception_empty (read_response posted lk k1 k2 n) = Inr []"
  by (simp add: read_response_def except_Exception_empty_def raise_for_status_def)

section \<open>State validation\<close>

text \<open>
  Claim C6. \<^verbatim>\<open>validate_state\<close> passes exactly when the topic is present, non-empty and
  between 3 and 200 characters long; every failure carries a non-empty reason; a missing
  topic, the empty topic, the topic \<^verbatim>\<open>"ab"\<close> and every topic of 201 or more characters
  are rejected.
\<close>

theorem validate_state_accepts_iff:
  "(fst (validate_state s) \<longleftrightarrow>
      (\<exists>t. topic s = Some t \<and> t \<noteq> [] \<and> 3 \<le> length t \<and> length t \<le> 200))
   \<and> (\<not> fst (validate_state s) \<longrightarrow> (\<exists>reason. snd (validate_state s) = Some reason \<and> reason \<noteq> []))
   \<and> (topic s = None \<or> topic s = Some [] \<or> topic s = Some ''ab''
        \<or> (\<exists>t. topic s = Some t \<and> 201 \<le> length t) \<longrightarrow> \<not> fst (validate_state s))"
  by (auto simp: validate_state_def split: option.splits)

theorem validate_state_accepts_iff_witness:
  "fst (validate_state example_state)
   \<and> \<not> fst (validate_state (example_state\<lparr>topic := Some ''ab''\<rparr>))
   \<and> (\<exists>reason. snd (validate_state (example_state\<lparr>topic := Some ''ab''\<rparr>)) = Some reason
        \<and> reason \<noteq> [])"
proof -
  have ok: "\<exists>t. topic example_state = Some t \<and> t \<noteq> [] \<and> 3 \<le> length t \<and> length t \<le> 200"
    by (simp add: example_state_def create_initial_state_def)
  have short: "topic (example_state\<lparr>topic := Some ''ab''\<rparr>) = Some ''ab''"
    by simp
  from ok short show ?thesis
    using validate_state_accepts_iff [of example_state]
      validate_state_accepts_iff [of "example_state\<lparr>topic := Some ''ab''\<rparr>"]
    by blast
qed

section \<open>The kernel on the success path\<close>

text \<open>
  Claim C1, as amended. When the domain logic returns a partial update \<open>r\<close>, the kernel
  returns an update in which the agent's status is completed, \<^verbatim>\<open>last_modified_by\<close> is
  the agent's name, every domain field (every key that is not one of the four metadata
  keys) has the value the domain logic returned, and the agent's execution time is the
  amount by which the wall clock moved between the kernel's two readings of it: a
  non-negative number whenever the clock was not set back while the kernel logged, wrote
  the status and ran the domain logic.
\<close>

theorem kernel_success:
  assumes "execute a (update_status (name a) s IN_PROGRESS) = Inr r"
  shows "\<exists>u t. returned (BaseAgent_call w a s) = Inr u
      \<and> dict_get2 u ''agent_status'' (name a) = Some (PStatus COMPLETED)
      \<and> dict_get2 u ''execution_time'' (name a) = Some (PFloat t)
      \<and> t = logging_seconds w + status_write_seconds w
              + execute_seconds a (update_status (name a) s IN_PROGRESS)
      \<and> (0 \<le> logging_seconds w \<and> 0 \<le> status_write_seconds w
           \<and> 0 \<le> execute_seconds a (update_status (name a) s IN_PROGRESS) \<longrightarrow> 0 \<le> t)
      \<and> dict_get u ''last_modified_by'' = Some (PStr (name a))
      \<and> (\<forall>k. k \<notin> set metadata_keys \<longrightarrow> dict_get u k = dict_get r k)"
  using assms
  by (simp add: BaseAgent_call_def Let_def logger_call_def dict_get2_def dict_get_set
      status_dict_val_def float_dict_val_def dict_get_map_val metadata_keys_def)

text \<open>
  The claim as stated fails: the recorded duration is the difference of two readings of
  \<^verbatim>\<open>time.time()\<close>, which is not monotonic. With one second of logging and one second for
  the status write, a system clock that is set back while the domain logic runs, so that
  it stands five seconds earlier when the domain logic returns, gives the execution time
  -3.
\<close>

theorem nonnegative_duration_counterexample:
  "execute set_back_writer (update_status (name set_back_writer) example_state IN_PROGRESS)
     = Inr [(''draft'', PStr ''hello'')]
   \<and> dict_get2 (projr (returned (BaseAgent_call example_world set_back_writer example_state)))
        ''execution_time'' ''Writer'' = Some (PFloat (- 3))"
  by (simp add: set_back_writer_returns set_back_call_example dict_get2_def)

theorem kernel_success_witness:
  "execute writer_agent (update_status (name writer_agent) example_state IN_PROGRESS)
     = Inr [(''draft'', PStr ''hello'')]
   \<and> 0 \<le> logging_seconds example_world \<and> 0 \<le> status_write_seconds example_world
   \<and> 0 \<le> execute_seconds writer_agent (update_status (name writer_agent) example_state IN_PROGRESS)
   \<and> (\<exists>u t. returned (BaseAgent_call example_world writer_agent example_state) = Inr u
        \<and> dict_get2 u ''agent_status'' ''Writer'' = Some (PStatus COMPLETED)
        \<and> dict_get2 u ''execution_time'' ''Writer'' = Some (PFloat t) \<and> t = 4 \<and> 0 \<le> t
        \<and> dict_get u ''last_modified_by'' = Some (PStr ''Writer'')
        \<and> dict_get u ''draft'' = Some (PStr ''hello''))"
proof -
  have h1: "execute writer_agent (update_status (name writer_agent) example_state IN_PROGRESS)
     = Inr [(''draft'', PStr ''hello'')]"
    by (simp add: writer_agent_def)
  have h2: "0 \<le> logging_seconds example_world" and h3: "0 \<le> status_write_seconds example_world"
    by (simp_all add: example_world_def)
  have h4: "0 \<le> execute_seconds writer_agent (update_status (name writer_agent) example_state IN_PROGRESS)"
    by (simp add: writer_agent_def)
  have n: "name writer_agent = ''Writer''"
    by (simp add: writer_agent_def)
  have d: "''draft'' \<notin> set metadata_keys"
    by (simp add: metadata_keys_def)
  have four: "logging_seconds example_world + status_write_seconds example_world
      + execute_seconds writer_agent (update_status (name writer_agent) example_state IN_PROGRESS) = 4"
    by (simp add: writer_agent_def example_world_def)
  from kernel_success [OF h1, of example_world] obtain u t where
    u1: "returned (BaseAgent_call example_world writer_agent example_state) = Inr u"
    and u2: "dict_get2 u ''agent_status'' (name writer_agent) = Some (PStatus COMPLETED)"
    and u3: "dict_get2 u ''execution_time'' (name writer_agent) = Some (PFloat t)"
    and u4: "t = logging_seconds example_world + status_write_seconds example_world
      + execute_seconds writer_agent (update_status (name writer_agent) example_state IN_PROGRESS)"
    and u5: "0 \<le> logging_seconds example_world \<and> 0 \<le> status_write_seconds example_world
           \<and> 0 \<le> execute_seconds writer_agent (update_status (name writer_agent) example_state IN_PROGRESS)
           \<longrightarrow> 0 \<le> t"
    and u6: "dict_get u ''last_modified_by'' = Some (PStr (name writer_agent))"
    and u7: "\<forall>k. k \<notin> set metadata_keys \<longrightarrow> dict_get u k = dict_get [(''draft'', PStr ''hello'')] k"
    by (elim exE conjE)
  from u7 d have u8: "dict_get u ''draft'' = Some (PStr ''hello'')"
    by simp
  from u5 h2 h3 h4 have u9: "0 \<le> t"
    by (intro mp [OF u5] conjI)
  from u4 four have u10: "t = 4"
    by simp
  from h1 h2 h3 h4 u1 u2 [unfolded n] u3 [unfolded n] u10 u9 u6 [unfolded n] u8 show ?thesis
    by (intro conjI exI [where x = u] exI [where x = t])
qed

section \<open>The kernel on the failure path\<close>

text \<open>
  Claim C2. Every kernel call increments the agent's invocation counter by exactly one,
  whatever the outcome. When the domain logic raises an exception with message \<open>m\<close>, the
  call does not raise: it returns an update with exactly the keys \<^verbatim>\<open>agent_status\<close>,
  \<^verbatim>\<open>error_log\<close> and \<^verbatim>\<open>execution_time\<close> (no domain field), in which the agent's status
  is failed and the error log is the input log followed by one new entry: the agent's
  name under \<^verbatim>\<open>agent\<close>, the message \<open>m\<close> under \<^verbatim>\<open>error\<close>, the ISO form of the current
  time under \<^verbatim>\<open>timestamp\<close> and the incremented counter under \<^verbatim>\<open>execution_count\<close>. A
  second failing call of the same agent on a state that carries the returned log appends
  a second entry, different from the first, whose counter is one higher.
\<close>

theorem kernel_failure:
  "execution_count (agent_after (BaseAgent_call w a s)) = execution_count a + 1
   \<and> (execute a (update_status (name a) s IN_PROGRESS) = Inl (Exception m) \<longrightarrow>
        (\<exists>u e1. returned (BaseAgent_call w a s) = Inr u
           \<and> keys u = [''agent_status'', ''error_log'', ''execution_time'']
           \<and> dict_get2 u ''agent_status'' (name a) = Some (PStatus FAILED)
           \<and> update_error_log u = Some (map PDict (get_error_log s) @ [PDict e1])
           \<and> e1 = [(''agent'', PStr (name a)),
                   (''error'', PStr m),
                   (''timestamp'', PStr (isoformat w (clock (world_after (BaseAgent_call w a s))))),
                   (''execution_count'', PInt (execution_count a + 1))]
           \<and> (\<forall>w2 s2 m2.
                 execute a (update_status (name a) s2 IN_PROGRESS) = Inl (Exception m2)
                 \<and> update_error_log u = Some (map PDict (get_error_log s2)) \<longrightarrow>
                 (\<exists>u2 e2. returned (BaseAgent_call w2 (agent_after (BaseAgent_call w a s)) s2) = Inr u2
                    \<and> update_error_log u2
                         = Some (map PDict (get_error_log s) @ [PDict e1, PDict e2])
                    \<and> e2 = [(''agent'', PStr (name a)),
                            (''error'', PStr m2),
                            (''timestamp'', PStr (isoformat w2 (clock (world_after
                               (BaseAgent_call w2 (agent_after (BaseAgent_call w a s)) s2))))),
                            (''execution_count'', PInt (execution_count a + 2))]
                    \<and> e1 \<noteq> e2))))"
proof (intro conjI impI)
  show "execution_count (agent_after (BaseAgent_call w a s)) = execution_count a + 1"
    by (simp add: agent_after_call)
next
  assume f1: "execute a (update_status (name a) s IN_PROGRESS) = Inl (Exception m)"
  define e1 where "e1 =
     [(''agent'', PStr (name a)),
      (''error'', PStr m),
      (''timestamp'', PStr (isoformat w (clock (world_after (BaseAgent_call w a s))))),
      (''execution_count'', PInt (execution_count a + 1))]"
  define u where "u =
     [(''agent_status'', status_dict_val (dict_set (name a) FAILED (get_agent_status s))),
      (''error_log'', error_log_val (get_error_log s @ [e1])),
      (''execution_time'', float_dict_val (dict_set (name a)
          (logging_seconds w + status_write_seconds w
             + execute_seconds a (update_status (name a) s IN_PROGRESS))
          (get_execution_time s)))]"
  have r1: "returned (BaseAgent_call w a s) = Inr u"
    unfolding u_def e1_def using failure_returned [OF f1, of w] by (simp only: error_entry_def)
  have k: "keys u = [''agent_status'', ''error_log'', ''execution_time'']"
    by (simp add: u_def keys_def)
  have st: "dict_get2 u ''agent_status'' (name a) = Some (PStatus FAILED)"
    by (simp add: u_def dict_get2_def status_dict_val_def dict_get_map_val dict_get_set)
  have lg: "update_error_log u = Some (map PDict (get_error_log s) @ [PDict e1])"
    by (simp add: u_def update_error_log_failure)
  have second: "\<exists>u2 e2. returned (BaseAgent_call w2 (agent_after (BaseAgent_call w a s)) s2) = Inr u2
                    \<and> update_error_log u2
                         = Some (map PDict (get_error_log s) @ [PDict e1, PDict e2])
                    \<and> e2 = [(''agent'', PStr (name a)),
                            (''error'', PStr m2),
                            (''timestamp'', PStr (isoformat w2 (clock (world_after
                               (BaseAgent_call w2 (agent_after (BaseAgent_call w a s)) s2))))),
                            (''execution_count'', PInt (execution_count a + 2))]
                    \<and> e1 \<noteq> e2"
    if f2: "execute a (update_status (name a) s2 IN_PROGRESS) = Inl (Exception m2)"
      and fed: "update_error_log u = Some (map PDict (get_error_log s2))"
    for w2 s2 m2
  proof -
    let ?a1 = "a\<lparr>execution_count := execution_count a + 1\<rparr>"
    have a1: "agent_after (BaseAgent_call w a s) = ?a1"
      by (rule agent_after_call)
    have f2': "execute ?a1 (update_status (name ?a1) s2 IN_PROGRESS) = Inl (Exception m2)"
      using f2 by simp
    from fed lg have l2: "map PDict (get_error_log s2) = map PDict (get_error_log s) @ [PDict e1]"
      by simp
    define e2 where "e2 =
       [(''agent'', PStr (name a)),
        (''error'', PStr m2),
        (''timestamp'', PStr (isoformat w2 (clock (world_after (BaseAgent_call w2 ?a1 s2))))),
        (''execution_count'', PInt (execution_count a + 2))]"
    have cnt: "execution_count ?a1 + 1 = execution_count a + 2" and nm: "name ?a1 = name a"
      by simp_all
    have ee: "error_entry (name ?a1) m2 (isoformat w2 (clock (world_after (BaseAgent_call w2 ?a1 s2))))
        (execution_count ?a1 + 1) = e2"
      unfolding cnt nm e2_def by (simp only: error_entry_def)
    note fr = failure_returned [OF f2', of w2, unfolded ee]
    have lg2: "update_error_log (projr (returned (BaseAgent_call w2 ?a1 s2)))
        = Some (map PDict (get_error_log s2) @ [PDict e2])"
      by (simp only: fr) (simp add: update_error_log_failure)
    have isr: "returned (BaseAgent_call w2 ?a1 s2) = Inr (projr (returned (BaseAgent_call w2 ?a1 s2)))"
      by (simp only: fr) simp
    have ne: "e1 \<noteq> e2"
      by (simp add: e1_def e2_def)
    from isr lg2 [unfolded l2] e2_def ne show ?thesis
      unfolding a1
      by (intro exI [where x = "projr (returned (BaseAgent_call w2 ?a1 s2))"] exI [where x = e2] conjI)
        simp_all
  qed
  have second_all: "\<forall>w2 s2 m2.
                 execute a (update_status (name a) s2 IN_PROGRESS) = Inl (Exception m2)
                 \<and> update_error_log u = Some (map PDict (get_error_log s2)) \<longrightarrow>
                 (\<exists>u2 e2. returned (BaseAgent_call w2 (agent_after (BaseAgent_call w a s)) s2) = Inr u2
                    \<and> update_error_log u2
                         = Some (map PDict (get_error_log s) @ [PDict e1, PDict e2])
                    \<and> e2 = [(''agent'', PStr (name a)),
                            (''error'', PStr m2),
                            (''timestamp'', PStr (isoformat w2 (clock (world_after
                               (BaseAgent_call w2 (agent_after (BaseAgent_call w a s)) s2))))),
                            (''execution_count'', PInt (execution_count a + 2))]
                    \<and> e1 \<noteq> e2)"
  proof (intro allI impI, elim conjE)
    fix w2 s2 m2
    assume "execute a (update_status (name a) s2 IN_PROGRESS) = Inl (Exception m2)"
      and "update_error_log u = Some (map PDict (get_error_log s2))"
    then show "\<exists>u2 e2. returned (BaseAgent_call w2 (agent_after (BaseAgent_call w a s)) s2) = Inr u2
                    \<and> update_error_log u2
                         = Some (map PDict (get_error_log s) @ [PDict e1, PDict e2])
                    \<and> e2 = [(''agent'', PStr (name a)),
                            (''error'', PStr m2),
                            (''timestamp'', PStr (isoformat w2 (clock (world_after
                               (BaseAgent_call w2 (agent_after (BaseAgent_call w a s)) s2))))),
                            (''execution_count'', PInt (execution_count a + 2))]
                    \<and> e1 \<noteq> e2"
      by (rule second)
  qed
  from r1 k st lg e1_def second_all
  show "\<exists>u e1. returned (BaseAgent_call w a s) = Inr u
           \<and> keys u = [''agent_status'', ''error_log'', ''execution_time'']
           \<and> dict_get2 u ''agent_status'' (name a) = Some (PStatus FAILED)
           \<and> update_error_log u = Some (map PDict (get_error_log s) @ [PDict e1])
           \<and> e1 = [(''agent'', PStr (name a)),
                   (''error'', PStr m),
                   (''timestamp'', PStr (isoformat w (clock (world_after (BaseAgent_call w a s))))),
                   (''execution_count'', PInt (execution_count a + 1))]
           \<and> (\<forall>w2 s2 m2.
                 execute a (update_status (name a) s2 IN_PROGRESS) = Inl (Exception m2)
                 \<and> update_error_log u = Some (map PDict (get_error_log s2)) \<longrightarrow>
                 (\<exists>u2 e2. returned (BaseAgent_call w2 (agent_after (BaseAgent_call w a s)) s2) = Inr u2
                    \<and> update_error_log u2
                         = Some (map PDict (get_error_log s) @ [PDict e1, PDict e2])
                    \<and> e2 = [(''agent'', PStr (name a)),
                            (''error'', PStr m2),
                            (''timestamp'', PStr (isoformat w2 (clock (world_after
                               (BaseAgent_call w2 (agent_after (BaseAgent_call w a s)) s2))))),
                            (''execution_count'', PInt (execution_count a + 2))]
                    \<and> e1 \<noteq> e2))"
    by (intro exI [where x = u] exI [where x = e1] conjI)
qed

theorem kernel_failure_witness:
  "execute failing_agent (update_status (name failing_agent) example_state IN_PROGRESS)
      = Inl (Exception ''boom'')
   \<and> execute failing_agent (update_status (name failing_agent) logged_state IN_PROGRESS)
      = Inl (Exception ''boom'')
   \<and> execution_count failing_agent = 0
   \<and> execution_count (agent_after (BaseAgent_call example_world failing_agent example_state)) = 1
   \<and> (\<exists>u u2 e1 e2. returned (BaseAgent_call example_world failing_agent example_state) = Inr u
        \<and> keys u = [''agent_status'', ''error_log'', ''execution_time'']
        \<and> dict_get2 u ''agent_status'' ''Researcher'' = Some (PStatus FAILED)
        \<and> update_error_log u = Some [PDict e1]
        \<and> dict_get e1 ''agent'' = Some (PStr ''Researcher'')
        \<and> dict_get e1 ''error'' = Some (PStr ''boom'')
        \<and> dict_get e1 ''timestamp'' = Some (PStr ''2024-01-01T00:00:00'')
        \<and> dict_get e1 ''execution_count'' = Some (PInt 1)
        \<and> returned (BaseAgent_call example_world
               (agent_after (BaseAgent_call example_world failing_agent example_state))
               logged_state) = Inr u2
        \<and> update_error_log u2 = Some [PDict e1, PDict e2]
        \<and> dict_get e2 ''agent'' = Some (PStr ''Researcher'')
        \<and> dict_get e2 ''error'' = Some (PStr ''boom'')
        \<and> dict_get e2 ''timestamp'' = Some (PStr ''2024-01-01T00:00:00'')
        \<and> dict_get e2 ''execution_count'' = Some (PInt 2)
        \<and> e1 \<noteq> e2)"
proof -
  note h = failing_agent_raises [of example_state]
  note h2 = failing_agent_raises [of logged_state]
  have n: "name failing_agent = ''Researcher''" and c: "execution_count failing_agent = 0"
    by (simp_all add: failing_agent_def)
  have iso: "isoformat example_world t = ''2024-01-01T00:00:00''" for t
    by (simp add: example_world_def)
  have l2: "map PDict (get_error_log logged_state)
      = [PDict [(''agent'', PStr ''Researcher''), (''error'', PStr ''boom''),
                (''timestamp'', PStr ''2024-01-01T00:00:00''), (''execution_count'', PInt 1)]]"
    by (simp add: logged_state_def get_error_log_def error_entry_def)
  note kf = kernel_failure [of example_world failing_agent example_state "''boom''"]
  from kf have cnt: "execution_count (agent_after (BaseAgent_call example_world failing_agent example_state))
            = execution_count failing_agent + 1"
    by (rule conjunct1)
  from kf [THEN conjunct2, THEN mp, OF h] obtain u e1 where
    u1: "returned (BaseAgent_call example_world failing_agent example_state) = Inr u"
    and u2: "keys u = [''agent_status'', ''error_log'', ''execution_time'']"
    and u3: "dict_get2 u ''agent_status'' (name failing_agent) = Some (PStatus FAILED)"
    and u4: "update_error_log u = Some (map PDict (get_error_log example_state) @ [PDict e1])"
    and e1: "e1 = [(''agent'', PStr (name failing_agent)),
                   (''error'', PStr ''boom''),
                   (''timestamp'', PStr (isoformat example_world (clock (world_after
                       (BaseAgent_call example_world failing_agent example_state))))),
                   (''execution_count'', PInt (execution_count failing_agent + 1))]"
    and nxt: "\<forall>w2 s2 m2.
                 execute failing_agent (update_status (name failing_agent) s2 IN_PROGRESS) = Inl (Exception m2)
                 \<and> update_error_log u = Some (map PDict (get_error_log s2)) \<longrightarrow>
                 (\<exists>u2 e2. returned (BaseAgent_call w2 (agent_after (BaseAgent_call example_world failing_agent example_state)) s2) = Inr u2
                    \<and> update_error_log u2
                         = Some (map PDict (get_error_log example_state) @ [PDict e1, PDict e2])
                    \<and> e2 = [(''agent'', PStr (name failing_agent)),
                            (''error'', PStr m2),
                            (''timestamp'', PStr (isoformat w2 (clock (world_after
                               (BaseAgent_call w2 (agent_after (BaseAgent_call example_world failing_agent example_state)) s2))))),
                            (''execution_count'', PInt (execution_count failing_agent + 2))]
                    \<and> e1 \<noteq> e2)"
    by (elim exE conjE)
  have e1': "e1 = [(''agent'', PStr ''Researcher''), (''error'', PStr ''boom''),
                (''timestamp'', PStr ''2024-01-01T00:00:00''), (''execution_count'', PInt 1)]"
    unfolding e1 n c iso by simp
  have u4': "update_error_log u = Some [PDict e1]"
    using u4 by (simp add: example_state_fields)
  have fed: "update_error_log u = Some (map PDict (get_error_log logged_state))"
    unfolding u4' l2 e1' ..
  from nxt [THEN spec, THEN spec, THEN spec, THEN mp, OF conjI [OF h2 fed], of example_world]
  obtain u2 e2 where
    v1: "returned (BaseAgent_call example_world
            (agent_after (BaseAgent_call example_world failing_agent example_state)) logged_state) = Inr u2"
    and v2: "update_error_log u2
                = Some (map PDict (get_error_log example_state) @ [PDict e1, PDict e2])"
    and e2: "e2 = [(''agent'', PStr (name failing_agent)),
                   (''error'', PStr ''boom''),
                   (''timestamp'', PStr (isoformat example_world (clock (world_after
                      (BaseAgent_call example_world (agent_after (BaseAgent_call example_world failing_agent example_state)) logged_state))))),
                   (''execution_count'', PInt (execution_count failing_agent + 2))]"
    and ne: "e1 \<noteq> e2"
    by (elim exE conjE)
  have v2': "update_error_log u2 = Some [PDict e1, PDict e2]"
    using v2 by (simp add: example_state_fields)
  have g1: "dict_get e1 ''agent'' = Some (PStr ''Researcher'')"
    "dict_get e1 ''error'' = Some (PStr ''boom'')"
    "dict_get e1 ''timestamp'' = Some (PStr ''2024-01-01T00:00:00'')"
    "dict_get e1 ''execution_count'' = Some (PInt 1)"
    unfolding e1' by simp_all
  have g2: "dict_get e2 ''agent'' = Some (PStr ''Researcher'')"
    "dict_get e2 ''error'' = Some (PStr ''boom'')"
    "dict_get e2 ''timestamp'' = Some (PStr ''2024-01-01T00:00:00'')"
    "dict_get e2 ''execution_count'' = Some (PInt 2)"
    unfolding e2 n c iso by simp_all
  have cnt': "execution_count (agent_after (BaseAgent_call example_world failing_agent example_state)) = 1"
    using cnt unfolding c by simp
  from h h2 c cnt' u1 u2 u3 [unfolded n] u4' g1 v1 v2' g2 ne show ?thesis
    by (intro conjI exI [where x = u] exI [where x = u2] exI [where x = e1] exI [where x = e2])
qed

section \<open>Precedence of the kernel's metadata over the agent's fields\<close>

text \<open>
  Claim C3, as amended. On the success path the kernel writes its four metadata keys
  into the dictionary that the domain logic returned: every other key keeps the value
  the domain logic gave it, the four metadata keys hold the kernel's values whatever the
  domain logic returned under them, and the result has the returned keys and the four
  metadata keys, nothing else.
\<close>

theorem kernel_merge_precedence:
  assumes "execute a (update_status (name a) s IN_PROGRESS) = Inr r"
  shows "\<exists>u. returned (BaseAgent_call w a s) = Inr u
      \<and> (\<forall>k. k \<notin> set metadata_keys \<longrightarrow> dict_get u k = dict_get r k)
      \<and> dict_get u ''last_modified_by'' = Some (PStr (name a))
      \<and> dict_get u ''last_modified_at'' = Some (PDatetime (clock w + logging_seconds w
             + status_write_seconds w + execute_seconds a (update_status (name a) s IN_PROGRESS)))
      \<and> dict_get u ''execution_time'' = Some (float_dict_val (dict_set (name a)
             (logging_seconds w + status_write_seconds w
                + execute_seconds a (update_status (name a) s IN_PROGRESS))
             (get_execution_time s)))
      \<and> dict_get u ''agent_status''
           = Some (status_dict_val (dict_set (name a) COMPLETED (get_agent_status s)))
      \<and> set (keys u) = set (keys r) \<union> set metadata_keys"
proof -
  define meta where "meta =
     [(''last_modified_by'', PStr (name a)),
      (''last_modified_at'', PDatetime (clock w + logging_seconds w + status_write_seconds w
             + execute_seconds a (update_status (name a) s IN_PROGRESS))),
      (''execution_time'', float_dict_val (dict_set (name a)
          (logging_seconds w + status_write_seconds w
             + execute_seconds a (update_status (name a) s IN_PROGRESS))
          (get_execution_time s))),
      (''agent_status'', status_dict_val (dict_set (name a) COMPLETED (get_agent_status s)))]"
  have km: "keys meta = metadata_keys"
    by (simp add: meta_def keys_def metadata_keys_def)
  have dm: "distinct (keys meta)"
    unfolding km by (simp add: metadata_keys_def)
  have ret: "returned (BaseAgent_call w a s) = Inr (dict_update r meta)"
    unfolding meta_def by (rule success_returned [OF assms])
  have other: "\<forall>k. k \<notin> set metadata_keys \<longrightarrow> dict_get (dict_update r meta) k = dict_get r k"
    by (simp add: dict_get_dict_update_other km)
  have g1: "dict_get meta ''last_modified_by'' = Some (PStr (name a))"
    by (simp add: meta_def)
  have g2: "dict_get meta ''last_modified_at'' = Some (PDatetime (clock w + logging_seconds w
             + status_write_seconds w + execute_seconds a (update_status (name a) s IN_PROGRESS)))"
    by (simp add: meta_def)
  have g3: "dict_get meta ''execution_time'' = Some (float_dict_val (dict_set (name a)
             (logging_seconds w + status_write_seconds w
                + execute_seconds a (update_status (name a) s IN_PROGRESS))
             (get_execution_time s)))"
    by (simp add: meta_def)
  have g4: "dict_get meta ''agent_status''
           = Some (status_dict_val (dict_set (name a) COMPLETED (get_agent_status s)))"
    by (simp add: meta_def)
  have ks: "set (keys (dict_update r meta)) = set (keys r) \<union> set metadata_keys"
    by (simp only: set_keys_dict_update km)
  show ?thesis
    using ret other dict_get_dict_update_written [OF dm g1] dict_get_dict_update_written [OF dm g2]
      dict_get_dict_update_written [OF dm g3] dict_get_dict_update_written [OF dm g4] ks
    by (intro exI [where x = "dict_update r meta"] conjI)
qed


text \<open>
  The claim as stated fails: an agent named Editor whose domain logic returns
  \<^verbatim>\<open>last_modified_by = "Mallory"\<close> gets \<^verbatim>\<open>last_modified_by = "Editor"\<close> back.
\<close>

theorem agent_fields_on_top_counterexample:
  "execute overriding_agent (update_status (name overriding_agent) example_state IN_PROGRESS)
     = Inr [(''last_modified_by'', PStr ''Mallory'')]
   \<and> returned (BaseAgent_call example_world overriding_agent example_state)
     = Inr [(''last_modified_by'', PStr ''Editor''),
            (''last_modified_at'', PDatetime 104),
            (''execution_time'', PDict [(''Editor'', PFloat 4)]),
            (''agent_status'', PDict [(''Editor'', PStatus COMPLETED)])]"
proof -
  have h: "execute overriding_agent (update_status (name overriding_agent) example_state IN_PROGRESS)
     = Inr [(''last_modified_by'', PStr ''Mallory'')]"
    by (simp add: overriding_agent_def)
  show ?thesis
    by (simp add: h success_returned [OF h] example_state_fields float_dict_val_def
        status_dict_val_def)
      (simp add: overriding_agent_def example_world_def)
qed


theorem kernel_merge_precedence_witness:
  "execute overriding_agent (update_status (name overriding_agent) example_state IN_PROGRESS)
     = Inr [(''last_modified_by'', PStr ''Mallory'')]
   \<and> (\<exists>u. returned (BaseAgent_call example_world overriding_agent example_state) = Inr u
        \<and> dict_get u ''last_modified_by'' = Some (PStr ''Editor'')
        \<and> dict_get u ''agent_status'' = Some (PDict [(''Editor'', PStatus COMPLETED)])
        \<and> dict_get u ''draft'' = None)"
proof -
  have h: "execute overriding_agent (update_status (name overriding_agent) example_state IN_PROGRESS)
     = Inr [(''last_modified_by'', PStr ''Mallory'')]"
    by (simp add: overriding_agent_def)
  have n: "name overriding_agent = ''Editor''"
    by (simp add: overriding_agent_def)
  have d: "''draft'' \<notin> set metadata_keys"
    by (simp add: metadata_keys_def)
  from kernel_merge_precedence [OF h, of example_world] obtain u where
    u: "returned (BaseAgent_call example_world overriding_agent example_state) = Inr u"
      "\<forall>k. k \<notin> set metadata_keys \<longrightarrow> dict_get u k = dict_get [(''last_modified_by'', PStr ''Mallory'')] k"
      "dict_get u ''last_modified_by'' = Some (PStr (name overriding_agent))"
      "dict_get u ''agent_status''
           = Some (status_dict_val (dict_set (name overriding_agent) COMPLETED (get_agent_status example_state)))"
    by blast
  from u(2) d have "dict_get u ''draft'' = None"
    by simp
  with u h show ?thesis
    by (simp add: n example_state_fields status_dict_val_def)
qed

section \<open>The versioning fields\<close>

text \<open>
  Claim C4, as amended. On the success path the update sets \<^verbatim>\<open>last_modified_by\<close> to the
  agent's name and \<^verbatim>\<open>last_modified_at\<close> to the wall-clock time at which the domain logic
  returned; on the failure path the update contains neither key. The kernel never writes
  \<^verbatim>\<open>version\<close>: a successful update carries it exactly when, and as, the domain logic
  returned it, a failure update never does, and the state object keeps its version
  through the call. \<^verbatim>\<open>create_initial_state\<close> sets the version to 1.
\<close>

theorem kernel_versioning_fields:
  "(execute a (update_status (name a) s IN_PROGRESS) = Inr r \<longrightarrow>
      (\<exists>u. returned (BaseAgent_call w a s) = Inr u
         \<and> dict_get u ''last_modified_by'' = Some (PStr (name a))
         \<and> dict_get u ''last_modified_at'' = Some (PDatetime (clock w + logging_seconds w
               + status_write_seconds w + execute_seconds a (update_status (name a) s IN_PROGRESS)))
         \<and> dict_get u ''version'' = dict_get r ''version''))
   \<and> (execute a (update_status (name a) s IN_PROGRESS) = Inl (Exception m) \<longrightarrow>
      (\<exists>u. returned (BaseAgent_call w a s) = Inr u
         \<and> dict_get u ''last_modified_by'' = None
         \<and> dict_get u ''last_modified_at'' = None
         \<and> dict_get u ''version'' = None))
   \<and> version (state_after (BaseAgent_call w a s)) = version s
   \<and> version (create_initial_state tp reqs aud tn wc now) = Some 1"
proof (intro conjI impI)
  assume ok: "execute a (update_status (name a) s IN_PROGRESS) = Inr r"
  define meta where "meta =
     [(''last_modified_by'', PStr (name a)),
      (''last_modified_at'', PDatetime (clock w + logging_seconds w + status_write_seconds w
             + execute_seconds a (update_status (name a) s IN_PROGRESS))),
      (''execution_time'', float_dict_val (dict_set (name a)
          (logging_seconds w + status_write_seconds w
             + execute_seconds a (update_status (name a) s IN_PROGRESS))
          (get_execution_time s))),
      (''agent_status'', status_dict_val (dict_set (name a) COMPLETED (get_agent_status s)))]"
  have dm: "distinct (keys meta)" and nv: "''version'' \<notin> set (keys meta)"
    by (simp_all add: meta_def keys_def)
  have ret: "returned (BaseAgent_call w a s) = Inr (dict_update r meta)"
    unfolding meta_def by (rule success_returned [OF ok])
  have g1: "dict_get meta ''last_modified_by'' = Some (PStr (name a))"
    by (simp add: meta_def)
  have g2: "dict_get meta ''last_modified_at'' = Some (PDatetime (clock w + logging_seconds w
             + status_write_seconds w + execute_seconds a (update_status (name a) s IN_PROGRESS)))"
    by (simp add: meta_def)
  show "\<exists>u. returned (BaseAgent_call w a s) = Inr u
         \<and> dict_get u ''last_modified_by'' = Some (PStr (name a))
         \<and> dict_get u ''last_modified_at'' = Some (PDatetime (clock w + logging_seconds w
               + status_write_seconds w + execute_seconds a (update_status (name a) s IN_PROGRESS)))
         \<and> dict_get u ''version'' = dict_get r ''version''"
    using ret dict_get_dict_update_written [OF dm g1] dict_get_dict_update_written [OF dm g2]
      dict_get_dict_update_other [OF nv]
    by (intro exI [where x = "dict_update r meta"] conjI)
next
  assume bad: "execute a (update_status (name a) s IN_PROGRESS) = Inl (Exception m)"
  show "\<exists>u. returned (BaseAgent_call w a s) = Inr u
         \<and> dict_get u ''last_modified_by'' = None
         \<and> dict_get u ''last_modified_at'' = None
         \<and> dict_get u ''version'' = None"
    by (simp add: failure_returned [OF bad])
next
  show "version (state_after (BaseAgent_call w a s)) = version s"
    by (rule state_after_version)
  show "version (create_initial_state tp reqs aud tn wc now) = Some 1"
    by (simp add: create_initial_state_def)
qed

text \<open>
  The claim as stated fails: the update of a failed call has exactly the keys
  \<^verbatim>\<open>agent_status\<close>, \<^verbatim>\<open>error_log\<close> and \<^verbatim>\<open>execution_time\<close>, and neither a failed nor a
  successful call writes \<^verbatim>\<open>version\<close>.
\<close>

theorem failed_call_versioning_counterexample:
  "execute failing_agent (update_status (name failing_agent) example_state IN_PROGRESS)
      = Inl (Exception ''boom'')
   \<and> returned (BaseAgent_call example_world failing_agent example_state) = Inr
     [(''agent_status'', PDict [(''Researcher'', PStatus FAILED)]),
      (''error_log'', PList [PDict (error_entry ''Researcher'' ''boom'' ''2024-01-01T00:00:00'' 1)]),
      (''execution_time'', PDict [(''Researcher'', PFloat 4)])]
   \<and> dict_get (projr (returned (BaseAgent_call example_world failing_agent example_state)))
        ''last_modified_by'' = None
   \<and> dict_get (projr (returned (BaseAgent_call example_world failing_agent example_state)))
        ''last_modified_at'' = None
   \<and> dict_get (projr (returned (BaseAgent_call example_world failing_agent example_state)))
        ''version'' = None
   \<and> dict_get (projr (returned (BaseAgent_call example_world writer_agent example_state)))
        ''version'' = None"
  by (simp add: failing_agent_raises failed_call_example successful_call_example)

theorem kernel_versioning_fields_witness:
  "execute writer_agent (update_status (name writer_agent) example_state IN_PROGRESS)
      = Inr [(''draft'', PStr ''hello'')]
   \<and> execute failing_agent (update_status (name failing_agent) example_state IN_PROGRESS)
      = Inl (Exception ''boom'')
   \<and> (\<exists>u. returned (BaseAgent_call example_world writer_agent example_state) = Inr u
         \<and> dict_get u ''last_modified_by'' = Some (PStr ''Writer'')
         \<and> dict_get u ''last_modified_at'' = Some (PDatetime 104)
         \<and> dict_get u ''version'' = None)
   \<and> (\<exists>u. returned (BaseAgent_call example_world failing_agent example_state) = Inr u
         \<and> dict_get u ''last_modified_by'' = None
         \<and> dict_get u ''last_modified_at'' = None
         \<and> dict_get u ''version'' = None)"
proof -
  note ok = writer_agent_returns [of example_state]
  note bad = failing_agent_raises [of example_state]
  have vals: "name writer_agent = ''Writer''"
    "clock example_world + logging_seconds example_world + status_write_seconds example_world
       + execute_seconds writer_agent (update_status ''Writer'' example_state IN_PROGRESS) = 104"
    "dict_get [(''draft'', PStr ''hello'')] ''version'' = None"
    by (simp_all add: writer_agent_def example_world_def)
  note t1 = kernel_versioning_fields [of writer_agent example_state "[(''draft'', PStr ''hello'')]"
      example_world "''boom''", THEN conjunct1, THEN mp, OF ok]
  note t2 = kernel_versioning_fields [of failing_agent example_state "[]"
      example_world "''boom''", THEN conjunct2, THEN conjunct1, THEN mp, OF bad]
  from t1 have t1': "\<exists>u. returned (BaseAgent_call example_world writer_agent example_state) = Inr u
         \<and> dict_get u ''last_modified_by'' = Some (PStr ''Writer'')
         \<and> dict_get u ''last_modified_at'' = Some (PDatetime 104)
         \<and> dict_get u ''version'' = None"
    unfolding vals .
  from ok bad t1' t2 show ?thesis
    by (intro conjI)
qed

section \<open>The conditional gate\<close>

text \<open>
  Claim C7. When \<^verbatim>\<open>should_execute\<close> is false on the input state, the call returns an
  update whose only key is \<^verbatim>\<open>agent_status\<close>, with this agent completed and every other
  agent's status as in the input; there is no error-log and no execution-time entry; the
  agent object (and so its invocation counter) and the state object are unchanged; only
  the logging of the skip takes time; and the result is the same whatever the domain
  logic is, which is never run.
\<close>

theorem conditional_skip:
  assumes "\<not> should_execute a s"
  shows "\<exists>u. returned (ConditionalAgent_call w a s) = Inr u
      \<and> keys u = [''agent_status'']
      \<and> dict_get2 u ''agent_status'' (name a) = Some (PStatus COMPLETED)
      \<and> (\<forall>k. k \<noteq> name a \<longrightarrow>
            dict_get2 u ''agent_status'' k = map_option PStatus (dict_get (get_agent_status s) k))
      \<and> update_error_log u = None
      \<and> dict_get u ''execution_time'' = None
      \<and> agent_after (ConditionalAgent_call w a s) = a
      \<and> state_after (ConditionalAgent_call w a s) = s
      \<and> clock (world_after (ConditionalAgent_call w a s)) = clock w + logging_seconds w
      \<and> (\<forall>f g. returned (ConditionalAgent_call w (a\<lparr>execute := f, execute_seconds := g\<rparr>) s) = Inr u)"
proof -
  define u where
    "u = [(''agent_status'', status_dict_val (dict_set (name a) COMPLETED (get_agent_status s)))]"
  have ret: "returned (ConditionalAgent_call w a s) = Inr u"
    using assms by (simp add: ConditionalAgent_call_def u_def)
  have ks: "keys u = [''agent_status'']"
    by (simp add: u_def keys_def)
  have g: "dict_get u ''agent_status''
      = Some (status_dict_val (dict_set (name a) COMPLETED (get_agent_status s)))"
    by (simp add: u_def)
  have own: "dict_get2 u ''agent_status'' (name a) = Some (PStatus COMPLETED)"
    by (simp add: dict_get2_status [OF g] dict_get_set)
  have others: "\<forall>k. k \<noteq> name a \<longrightarrow>
            dict_get2 u ''agent_status'' k = map_option PStatus (dict_get (get_agent_status s) k)"
    by (simp add: dict_get2_status [OF g] dict_get_set)
  have nolog: "update_error_log u = None" and notime: "dict_get u ''execution_time'' = None"
    by (simp_all add: u_def update_error_log_def)
  have ag: "agent_after (ConditionalAgent_call w a s) = a"
    and st: "state_after (ConditionalAgent_call w a s) = s"
    and ck: "clock (world_after (ConditionalAgent_call w a s)) = clock w + logging_seconds w"
    using assms by (simp_all add: ConditionalAgent_call_def logger_call_def)
  have indep: "\<forall>f g. returned (ConditionalAgent_call w (a\<lparr>execute := f, execute_seconds := g\<rparr>) s) = Inr u"
    using assms by (simp add: ConditionalAgent_call_def u_def)
  from ret ks own others nolog notime ag st ck indep show ?thesis
    by (intro exI [where x = u] conjI)
qed

theorem conditional_skip_witness:
  "\<not> should_execute skipped_editor example_state
   \<and> (\<exists>u. returned (ConditionalAgent_call example_world skipped_editor example_state) = Inr u
        \<and> keys u = [''agent_status'']
        \<and> dict_get2 u ''agent_status'' ''Editor'' = Some (PStatus COMPLETED)
        \<and> update_error_log u = None
        \<and> dict_get u ''execution_time'' = None)
   \<and> execution_count (agent_after (ConditionalAgent_call example_world skipped_editor example_state)) = 0
   \<and> state_after (ConditionalAgent_call example_world skipped_editor example_state) = example_state"
proof -
  have h: "\<not> should_execute skipped_editor example_state"
    by (simp add: skipped_editor_def)
  have n: "name skipped_editor = ''Editor''" and c: "execution_count skipped_editor = 0"
    by (simp_all add: skipped_editor_def)
  from conditional_skip [OF h, of example_world] obtain u where
    u1: "returned (ConditionalAgent_call example_world skipped_editor example_state) = Inr u"
    and u2: "keys u = [''agent_status'']"
    and u3: "dict_get2 u ''agent_status'' (name skipped_editor) = Some (PStatus COMPLETED)"
    and u5: "update_error_log u = None"
    and u6: "dict_get u ''execution_time'' = None"
    and u7: "agent_after (ConditionalAgent_call example_world skipped_editor example_state) = skipped_editor"
    and u8: "state_after (ConditionalAgent_call example_world skipped_editor example_state) = example_state"
    by (elim exE conjE)
  have cnt: "execution_count (agent_after (ConditionalAgent_call example_world skipped_editor example_state)) = 0"
    unfolding u7 by (rule c)
  from h u1 u2 u3 [unfolded n] u5 u6 cnt u8 show ?thesis
    by (intro conjI exI [where x = u])
qed

section \<open>What the recorded duration spans\<close>

text \<open>
  Claim C8, as amended. On the success path and on the failure path alike, the duration
  recorded for the agent is the time from the kernel's first clock reading, taken before
  the start is logged and the in-progress status is written, to the moment the domain
  logic returns or raises: the time of the start logging, of the status write and of the
  domain logic together. What the kernel does afterwards (the merge of the metadata, the
  closing log line) is outside the interval.
\<close>

theorem kernel_timing_interval:
  assumes "execute a (update_status (name a) s IN_PROGRESS) = Inr r
         \<or> execute a (update_status (name a) s IN_PROGRESS) = Inl (Exception m)"
  shows "\<exists>u. returned (BaseAgent_call w a s) = Inr u
      \<and> dict_get2 u ''execution_time'' (name a)
           = Some (PFloat (logging_seconds w + status_write_seconds w
                + execute_seconds a (update_status (name a) s IN_PROGRESS)))
      \<and> clock (world_after (BaseAgent_call w a s))
           = clock w + (logging_seconds w + status_write_seconds w
                + execute_seconds a (update_status (name a) s IN_PROGRESS)) + logging_seconds w"
proof -
  let ?d = "logging_seconds w + status_write_seconds w
                + execute_seconds a (update_status (name a) s IN_PROGRESS)"
  have ck: "clock (world_after (BaseAgent_call w a s)) = clock w + ?d + logging_seconds w"
    using assms by (auto simp: BaseAgent_call_def Let_def logger_call_def)
  from assms show ?thesis
  proof
    assume ok: "execute a (update_status (name a) s IN_PROGRESS) = Inr r"
    define meta where "meta =
     [(''last_modified_by'', PStr (name a)),
      (''last_modified_at'', PDatetime (clock w + logging_seconds w + status_write_seconds w
             + execute_seconds a (update_status (name a) s IN_PROGRESS))),
      (''execution_time'', float_dict_val (dict_set (name a) ?d (get_execution_time s))),
      (''agent_status'', status_dict_val (dict_set (name a) COMPLETED (get_agent_status s)))]"
    have dm: "distinct (keys meta)"
      by (simp add: meta_def keys_def)
    have ret: "returned (BaseAgent_call w a s) = Inr (dict_update r meta)"
      unfolding meta_def by (rule success_returned [OF ok])
    have g: "dict_get meta ''execution_time''
        = Some (float_dict_val (dict_set (name a) ?d (get_execution_time s)))"
      by (simp add: meta_def)
    have "dict_get2 (dict_update r meta) ''execution_time'' (name a) = Some (PFloat ?d)"
      by (simp add: dict_get2_time [OF dict_get_dict_update_written [OF dm g]] dict_get_set)
    with ret ck show ?thesis
      by (intro exI [where x = "dict_update r meta"] conjI)
  next
    assume bad: "execute a (update_status (name a) s IN_PROGRESS) = Inl (Exception m)"
    have "dict_get2 (projr (returned (BaseAgent_call w a s))) ''execution_time'' (name a)
        = Some (PFloat ?d)"
      by (simp add: failure_returned [OF bad] dict_get2_def float_dict_val_def dict_get_map_val
          dict_get_set)
    moreover have "returned (BaseAgent_call w a s) = Inr (projr (returned (BaseAgent_call w a s)))"
      by (simp add: failure_returned [OF bad])
    ultimately show ?thesis
      using ck by (intro exI [where x = "projr (returned (BaseAgent_call w a s))"] conjI)
  qed
qed

text \<open>
  The claim as stated fails: with one second of logging and one second for the status
  write, a domain logic that runs for 2 seconds is recorded with 4 seconds.
\<close>

theorem domain_logic_only_timing_counterexample:
  "execute_seconds writer_agent (update_status (name writer_agent) example_state IN_PROGRESS) = 2
   \<and> dict_get2 (projr (returned (BaseAgent_call example_world writer_agent example_state)))
        ''execution_time'' ''Writer'' = Some (PFloat 4)"
  by (simp add: successful_call_example dict_get2_def) (simp add: writer_agent_def)

theorem kernel_timing_interval_witness:
  "(execute writer_agent (update_status (name writer_agent) example_state IN_PROGRESS)
       = Inr [(''draft'', PStr ''hello'')]
     \<or> execute writer_agent (update_status (name writer_agent) example_state IN_PROGRESS)
       = Inl (Exception ''boom''))
   \<and> (\<exists>u. returned (BaseAgent_call example_world writer_agent example_state) = Inr u
        \<and> dict_get2 u ''execution_time'' ''Writer'' = Some (PFloat (1 + 1 + 2))
        \<and> clock (world_after (BaseAgent_call example_world writer_agent example_state))
             = 100 + (1 + 1 + 2) + 1)"
proof -
  have h: "execute writer_agent (update_status (name writer_agent) example_state IN_PROGRESS)
       = Inr [(''draft'', PStr ''hello'')]
     \<or> execute writer_agent (update_status (name writer_agent) example_state IN_PROGRESS)
       = Inl (Exception ''boom'')"
    by (rule disjI1) (rule writer_agent_returns)
  have vals: "name writer_agent = ''Writer''" "clock example_world = 100"
    "logging_seconds example_world = 1" "status_write_seconds example_world = 1"
    "execute_seconds writer_agent (update_status ''Writer'' example_state IN_PROGRESS) = 2"
    by (simp_all add: writer_agent_def example_world_def)
  from kernel_timing_interval [OF h, of example_world]
  have "\<exists>u. returned (BaseAgent_call example_world writer_agent example_state) = Inr u
        \<and> dict_get2 u ''execution_time'' ''Writer'' = Some (PFloat (1 + 1 + 2))
        \<and> clock (world_after (BaseAgent_call example_world writer_agent example_state))
             = 100 + (1 + 1 + 2) + 1"
    unfolding vals .
  with h show ?thesis
    by (intro conjI)
qed

section \<open>The error log only grows, the metadata maps are overwritten\<close>

text \<open>
  Claim C5, as amended. A failed call returns the input error log followed by one new
  entry. A successful call writes no \<^verbatim>\<open>error_log\<close> of its own: the update it returns
  has one exactly when the domain logic returned one, and then with the value the domain
  logic gave it. No call touches the error log of the state object. When an agent that
  has an entry in the status map and in the timing map of the input state (a previous
  completion) succeeds again, the returned status map and timing map have exactly the
  keys of the input maps, in their order and without a duplicate; this agent's status is
  completed and its time is the newly measured duration, every other entry is as it was,
  and \<^verbatim>\<open>last_modified_by\<close> is the agent's name, one key among pairwise distinct keys. A
  second failing call on a state that carries the log returned by a first failing call
  returns that input log followed by two entries.
\<close>

theorem kernel_log_append_only_metadata_overwritten:
  "(execute a (update_status (name a) s IN_PROGRESS) = Inl (Exception m) \<longrightarrow>
      (\<exists>u e. returned (BaseAgent_call w a s) = Inr u
         \<and> update_error_log u = Some (map PDict (get_error_log s) @ [e])))
   \<and> (execute a (update_status (name a) s IN_PROGRESS) = Inr r \<longrightarrow>
      (\<exists>u. returned (BaseAgent_call w a s) = Inr u
         \<and> dict_get u ''error_log'' = dict_get r ''error_log''))
   \<and> get_error_log (state_after (BaseAgent_call w a s)) = get_error_log s
   \<and> (execute a (update_status (name a) s IN_PROGRESS) = Inr r \<and> distinct (keys r)
        \<and> distinct (keys (get_agent_status s))
        \<and> dict_get (get_agent_status s) (name a) = Some st0
        \<and> distinct (keys (get_execution_time s))
        \<and> dict_get (get_execution_time s) (name a) = Some t0 \<longrightarrow>
      (\<exists>u. returned (BaseAgent_call w a s) = Inr u
         \<and> distinct (keys u)
         \<and> dict_get u ''last_modified_by'' = Some (PStr (name a))
         \<and> dict_keys2 u ''agent_status'' = Some (keys (get_agent_status s))
         \<and> dict_get2 u ''agent_status'' (name a) = Some (PStatus COMPLETED)
         \<and> (\<forall>k. k \<noteq> name a \<longrightarrow>
               dict_get2 u ''agent_status'' k = map_option PStatus (dict_get (get_agent_status s) k))
         \<and> dict_keys2 u ''execution_time'' = Some (keys (get_execution_time s))
         \<and> dict_get2 u ''execution_time'' (name a)
             = Some (PFloat (logging_seconds w + status_write_seconds w
                 + execute_seconds a (update_status (name a) s IN_PROGRESS)))
         \<and> (\<forall>k. k \<noteq> name a \<longrightarrow>
               dict_get2 u ''execution_time'' k
                 = map_option PFloat (dict_get (get_execution_time s) k))))
   \<and> (execute a (update_status (name a) s IN_PROGRESS) = Inl (Exception m)
        \<and> execute a (update_status (name a) s2 IN_PROGRESS) = Inl (Exception m2)
        \<and> (\<exists>u. returned (BaseAgent_call w a s) = Inr u
              \<and> update_error_log u = Some (map PDict (get_error_log s2))) \<longrightarrow>
      (\<exists>u2 e1 e2. returned (BaseAgent_call w2 (agent_after (BaseAgent_call w a s)) s2) = Inr u2
         \<and> update_error_log u2 = Some (map PDict (get_error_log s) @ [e1, e2])))"
proof (intro conjI impI)
  assume bad: "execute a (update_status (name a) s IN_PROGRESS) = Inl (Exception m)"
  from failure_log [OF bad, of w]
  show "\<exists>u e. returned (BaseAgent_call w a s) = Inr u
         \<and> update_error_log u = Some (map PDict (get_error_log s) @ [e])"
    by (elim exE conjE) (intro exI conjI)
next
  assume ok: "execute a (update_status (name a) s IN_PROGRESS) = Inr r"
  have "''error_log'' \<notin> set (keys
     [(''last_modified_by'', PStr (name a)),
      (''last_modified_at'', PDatetime (clock w + logging_seconds w + status_write_seconds w
             + execute_seconds a (update_status (name a) s IN_PROGRESS))),
      (''execution_time'', float_dict_val (dict_set (name a)
          (logging_seconds w + status_write_seconds w
             + execute_seconds a (update_status (name a) s IN_PROGRESS))
          (get_execution_time s))),
      (''agent_status'', status_dict_val (dict_set (name a) COMPLETED (get_agent_status s)))])"
    by (simp add: keys_def)
  from dict_get_dict_update_other [OF this, of r]
  show "\<exists>u. returned (BaseAgent_call w a s) = Inr u
         \<and> dict_get u ''error_log'' = dict_get r ''error_log''"
    by (simp only: success_returned [OF ok]) simp
next
  show "get_error_log (state_after (BaseAgent_call w a s)) = get_error_log s"
    by (rule state_after_error_log)
next
  assume h: "execute a (update_status (name a) s IN_PROGRESS) = Inr r \<and> distinct (keys r)
        \<and> distinct (keys (get_agent_status s))
        \<and> dict_get (get_agent_status s) (name a) = Some st0
        \<and> distinct (keys (get_execution_time s))
        \<and> dict_get (get_execution_time s) (name a) = Some t0"
  then have ok: "execute a (update_status (name a) s IN_PROGRESS) = Inr r"
    and dr: "distinct (keys r)"
    and ds: "distinct (keys (get_agent_status s))"
    and cs: "dict_get (get_agent_status s) (name a) = Some st0"
    and dt: "distinct (keys (get_execution_time s))"
    and ct: "dict_get (get_execution_time s) (name a) = Some t0"
    by simp_all
  define el where "el = logging_seconds w + status_write_seconds w
             + execute_seconds a (update_status (name a) s IN_PROGRESS)"
  define sm where "sm = dict_set (name a) COMPLETED (get_agent_status s)"
  define tm where "tm = dict_set (name a) el (get_execution_time s)"
  define meta where "meta =
     [(''last_modified_by'', PStr (name a)),
      (''last_modified_at'', PDatetime (clock w + logging_seconds w + status_write_seconds w
             + execute_seconds a (update_status (name a) s IN_PROGRESS))),
      (''execution_time'', float_dict_val tm),
      (''agent_status'', status_dict_val sm)]"
  define u where "u = dict_update r meta"
  have dm: "distinct (keys meta)"
    by (simp add: meta_def keys_def)
  have ret: "returned (BaseAgent_call w a s) = Inr u"
    unfolding u_def meta_def sm_def tm_def el_def by (rule success_returned [OF ok])
  have g1: "dict_get meta ''last_modified_by'' = Some (PStr (name a))"
    and g3: "dict_get meta ''execution_time'' = Some (float_dict_val tm)"
    and g4: "dict_get meta ''agent_status'' = Some (status_dict_val sm)"
    by (simp_all add: meta_def)
  note so = success_status_overwrite [OF cs ds, of COMPLETED, folded sm_def]
  note to = success_status_overwrite [OF ct dt, of el, folded tm_def]
  have du: "distinct (keys u)"
    unfolding u_def by (rule distinct_keys_dict_update [OF dr])
  have lm: "dict_get u ''last_modified_by'' = Some (PStr (name a))"
    unfolding u_def by (rule dict_get_dict_update_written [OF dm g1])
  have us: "dict_get u ''agent_status'' = Some (status_dict_val sm)"
    unfolding u_def by (rule dict_get_dict_update_written [OF dm g4])
  have ut: "dict_get u ''execution_time'' = Some (float_dict_val tm)"
    unfolding u_def by (rule dict_get_dict_update_written [OF dm g3])
  have ks: "dict_keys2 u ''agent_status'' = Some (keys (get_agent_status s))"
    using dict_keys2_status [OF us] so(1) by simp
  have s_own: "dict_get2 u ''agent_status'' (name a) = Some (PStatus COMPLETED)"
    using dict_get2_status [OF us, of "name a"] so(3) by simp
  have s_other: "\<forall>k. k \<noteq> name a \<longrightarrow>
               dict_get2 u ''agent_status'' k = map_option PStatus (dict_get (get_agent_status s) k)"
    using dict_get2_status [OF us] so(4) by simp
  have kt: "dict_keys2 u ''execution_time'' = Some (keys (get_execution_time s))"
    using dict_keys2_time [OF ut] to(1) by simp
  have t_own: "dict_get2 u ''execution_time'' (name a)
             = Some (PFloat (logging_seconds w + status_write_seconds w
                 + execute_seconds a (update_status (name a) s IN_PROGRESS)))"
    using dict_get2_time [OF ut, of "name a"] to(3) by (simp add: el_def)
  have t_other: "\<forall>k. k \<noteq> name a \<longrightarrow>
               dict_get2 u ''execution_time'' k
                 = map_option PFloat (dict_get (get_execution_time s) k)"
    using dict_get2_time [OF ut] to(4) by simp
  from ret du lm ks s_own s_other kt t_own t_other
  show "\<exists>u. returned (BaseAgent_call w a s) = Inr u
         \<and> distinct (keys u)
         \<and> dict_get u ''last_modified_by'' = Some (PStr (name a))
         \<and> dict_keys2 u ''agent_status'' = Some (keys (get_agent_status s))
         \<and> dict_get2 u ''agent_status'' (name a) = Some (PStatus COMPLETED)
         \<and> (\<forall>k. k \<noteq> name a \<longrightarrow>
               dict_get2 u ''agent_status'' k = map_option PStatus (dict_get (get_agent_status s) k))
         \<and> dict_keys2 u ''execution_time'' = Some (keys (get_execution_time s))
         \<and> dict_get2 u ''execution_time'' (name a)
             = Some (PFloat (logging_seconds w + status_write_seconds w
                 + execute_seconds a (update_status (name a) s IN_PROGRESS)))
         \<and> (\<forall>k. k \<noteq> name a \<longrightarrow>
               dict_get2 u ''execution_time'' k
                 = map_option PFloat (dict_get (get_execution_time s) k))"
    by (intro exI [where x = u] conjI)
next
  assume h: "execute a (update_status (name a) s IN_PROGRESS) = Inl (Exception m)
        \<and> execute a (update_status (name a) s2 IN_PROGRESS) = Inl (Exception m2)
        \<and> (\<exists>u. returned (BaseAgent_call w a s) = Inr u
              \<and> update_error_log u = Some (map PDict (get_error_log s2)))"
  then have bad1: "execute a (update_status (name a) s IN_PROGRESS) = Inl (Exception m)"
    and bad2: "execute a (update_status (name a) s2 IN_PROGRESS) = Inl (Exception m2)"
    by simp_all
  from h obtain u where u: "returned (BaseAgent_call w a s) = Inr u"
    "update_error_log u = Some (map PDict (get_error_log s2))"
    by (elim conjE exE)
  from failure_log [OF bad1, of w] obtain u' ts where u': "returned (BaseAgent_call w a s) = Inr u'"
    "update_error_log u' = Some (map PDict (get_error_log s)
            @ [PDict (error_entry (name a) m ts (execution_count a + 1))])"
    by (elim conjE exE)
  from u(1) u'(1) have "u' = u" by simp
  with u(2) u'(2) have fed: "map PDict (get_error_log s2) = map PDict (get_error_log s)
            @ [PDict (error_entry (name a) m ts (execution_count a + 1))]"
    by simp
  let ?a1 = "a\<lparr>execution_count := execution_count a + 1\<rparr>"
  have bad2': "execute ?a1 (update_status (name ?a1) s2 IN_PROGRESS) = Inl (Exception m2)"
    using bad2 by simp
  from failure_log [OF bad2', of w2] obtain u2 ts2 where
    u2: "returned (BaseAgent_call w2 ?a1 s2) = Inr u2"
    "update_error_log u2 = Some (map PDict (get_error_log s2)
            @ [PDict (error_entry (name ?a1) m2 ts2 (execution_count ?a1 + 1))])"
    by (elim conjE exE)
  from u2(2) have "update_error_log u2 = Some (map PDict (get_error_log s)
            @ [PDict (error_entry (name a) m ts (execution_count a + 1)),
               PDict (error_entry (name ?a1) m2 ts2 (execution_count ?a1 + 1))])"
    unfolding fed by simp
  with u2(1)
  show "\<exists>u2 e1 e2. returned (BaseAgent_call w2 (agent_after (BaseAgent_call w a s)) s2) = Inr u2
         \<and> update_error_log u2 = Some (map PDict (get_error_log s) @ [e1, e2])"
    unfolding agent_after_call by (intro exI conjI)
qed

text \<open>
  The claim as stated fails for a successful call: \<^verbatim>\<open>result.update\<close> writes the four
  metadata keys on top of what the domain logic returned, \<^verbatim>\<open>error_log\<close> is not one of
  them, and so an \<^verbatim>\<open>error_log\<close> in the domain logic's result is returned as it is. On a
  state whose log has one entry, an agent that returns an empty \<^verbatim>\<open>error_log\<close> makes the
  call return the empty log.
\<close>

theorem log_wiped_counterexample:
  "execute log_wiping_agent (update_status (name log_wiping_agent) logged_state IN_PROGRESS)
      = Inr [(''error_log'', PList [])]
   \<and> map PDict (get_error_log logged_state) =
       [PDict [(''agent'', PStr ''Researcher''), (''error'', PStr ''boom''),
               (''timestamp'', PStr ''2024-01-01T00:00:00''), (''execution_count'', PInt 1)]]
   \<and> returned (BaseAgent_call example_world log_wiping_agent logged_state) = Inr
       [(''error_log'', PList []),
        (''last_modified_by'', PStr ''Writer''),
        (''last_modified_at'', PDatetime 104),
        (''execution_time'', PDict [(''Writer'', PFloat 4)]),
        (''agent_status'', PDict [(''Writer'', PStatus COMPLETED)])]
   \<and> update_error_log (projr (returned (BaseAgent_call example_world log_wiping_agent logged_state)))
       = Some []"
  by (simp add: log_wiping_agent_returns logged_state_fields log_wiping_call_example
      update_error_log_def)

theorem kernel_log_append_only_metadata_overwritten_witness:
  "execute failing_agent (update_status (name failing_agent) example_state IN_PROGRESS)
      = Inl (Exception ''boom'')
   \<and> execute failing_agent (update_status (name failing_agent) logged_state IN_PROGRESS)
      = Inl (Exception ''boom'')
   \<and> execute writer_agent (update_status (name writer_agent) revisited_state IN_PROGRESS)
      = Inr [(''draft'', PStr ''hello'')]
   \<and> (\<exists>u e. returned (BaseAgent_call example_world failing_agent example_state) = Inr u
         \<and> update_error_log u = Some [e])
   \<and> (\<exists>u2 e1 e2. returned (BaseAgent_call example_world
            (agent_after (BaseAgent_call example_world failing_agent example_state)) logged_state) = Inr u2
         \<and> update_error_log u2 = Some [e1, e2])
   \<and> dict_get (get_agent_status revisited_state) ''Writer'' = Some COMPLETED
   \<and> dict_get (get_execution_time revisited_state) ''Writer'' = Some 7
   \<and> (\<exists>u. returned (BaseAgent_call example_world writer_agent revisited_state) = Inr u
         \<and> dict_get u ''error_log'' = None)
   \<and> (\<exists>u. returned (BaseAgent_call example_world writer_agent revisited_state) = Inr u
         \<and> distinct (keys u)
         \<and> dict_get u ''last_modified_by'' = Some (PStr ''Writer'')
         \<and> dict_keys2 u ''agent_status'' = Some [''Researcher'', ''Writer'']
         \<and> dict_get2 u ''agent_status'' ''Writer'' = Some (PStatus COMPLETED)
         \<and> dict_get2 u ''agent_status'' ''Researcher'' = Some (PStatus COMPLETED)
         \<and> dict_keys2 u ''execution_time'' = Some [''Researcher'', ''Writer'']
         \<and> dict_get2 u ''execution_time'' ''Writer'' = Some (PFloat 4)
         \<and> dict_get2 u ''execution_time'' ''Researcher'' = Some (PFloat 3))"
proof -
  note bad1 = failing_agent_raises [of example_state]
  note bad2 = failing_agent_raises [of logged_state]
  note ok = writer_agent_returns [of revisited_state]
  have n: "name writer_agent = ''Writer''"
    by (simp add: writer_agent_def)
  have dr: "distinct (keys [(''draft'', PStr ''hello'')])"
    by (simp add: keys_def)
  have pre: "distinct (keys (get_agent_status revisited_state))"
    "dict_get (get_agent_status revisited_state) (name writer_agent) = Some COMPLETED"
    "distinct (keys (get_execution_time revisited_state))"
    "dict_get (get_execution_time revisited_state) (name writer_agent) = Some 7"
    by (simp_all add: revisited_state_fields keys_def n)
  have kk: "keys (get_agent_status revisited_state) = [''Researcher'', ''Writer'']"
    "keys (get_execution_time revisited_state) = [''Researcher'', ''Writer'']"
    by (simp_all add: revisited_state_fields keys_def)
  have four: "logging_seconds example_world + status_write_seconds example_world
      + execute_seconds writer_agent (update_status ''Writer'' revisited_state IN_PROGRESS) = 4"
    by (simp add: writer_agent_def example_world_def)
  have fed: "\<exists>u. returned (BaseAgent_call example_world failing_agent example_state) = Inr u
              \<and> update_error_log u = Some (map PDict (get_error_log logged_state))"
    by (simp add: failed_call_example update_error_log_def logged_state_fields error_entry_def)
  note thm1 = kernel_log_append_only_metadata_overwritten
      [where a = failing_agent and s = example_state and m = "''boom''" and w = example_world
        and ?s2.0 = logged_state and ?m2.0 = "''boom''" and ?w2.0 = example_world]
  note thm2 = kernel_log_append_only_metadata_overwritten
      [where a = writer_agent and s = revisited_state and w = example_world
        and r = "[(''draft'', PStr ''hello'')]" and ?st0.0 = COMPLETED and ?t0.0 = 7]
  have c1: "\<exists>u e. returned (BaseAgent_call example_world failing_agent example_state) = Inr u
         \<and> update_error_log u = Some [e]"
    using thm1 [THEN conjunct1, THEN mp, OF bad1] by (simp add: example_state_fields)
  have c5: "\<exists>u2 e1 e2. returned (BaseAgent_call example_world
            (agent_after (BaseAgent_call example_world failing_agent example_state)) logged_state) = Inr u2
         \<and> update_error_log u2 = Some [e1, e2]"
    using thm1 [THEN conjunct2, THEN conjunct2, THEN conjunct2, THEN conjunct2, THEN mp,
        OF conjI [OF bad1 conjI [OF bad2 fed]]]
    by (simp add: example_state_fields)
  have c2: "\<exists>u. returned (BaseAgent_call example_world writer_agent revisited_state) = Inr u
         \<and> dict_get u ''error_log'' = None"
    using thm2 [THEN conjunct2, THEN conjunct1, THEN mp, OF ok] by simp
  from thm2 [THEN conjunct2, THEN conjunct2, THEN conjunct2, THEN conjunct1, THEN mp,
      OF conjI [OF ok conjI [OF dr conjI [OF pre(1) conjI [OF pre(2) conjI [OF pre(3) pre(4)]]]]]]
  obtain u where
    u: "returned (BaseAgent_call example_world writer_agent revisited_state) = Inr u"
      "distinct (keys u)"
      "dict_get u ''last_modified_by'' = Some (PStr (name writer_agent))"
      "dict_keys2 u ''agent_status'' = Some (keys (get_agent_status revisited_state))"
      "dict_get2 u ''agent_status'' (name writer_agent) = Some (PStatus COMPLETED)"
    and so: "\<forall>k. k \<noteq> name writer_agent \<longrightarrow> dict_get2 u ''agent_status'' k
               = map_option PStatus (dict_get (get_agent_status revisited_state) k)"
    and ut: "dict_keys2 u ''execution_time'' = Some (keys (get_execution_time revisited_state))"
      "dict_get2 u ''execution_time'' (name writer_agent)
         = Some (PFloat (logging_seconds example_world + status_write_seconds example_world
             + execute_seconds writer_agent
                 (update_status (name writer_agent) revisited_state IN_PROGRESS)))"
    and to: "\<forall>k. k \<noteq> name writer_agent \<longrightarrow> dict_get2 u ''execution_time'' k
               = map_option PFloat (dict_get (get_execution_time revisited_state) k)"
    by (elim exE conjE)
  have rs: "dict_get2 u ''agent_status'' ''Researcher'' = Some (PStatus COMPLETED)"
    using so [THEN spec, of "''Researcher''"] by (simp add: n revisited_state_fields)
  have rt: "dict_get2 u ''execution_time'' ''Researcher'' = Some (PFloat 3)"
    using to [THEN spec, of "''Researcher''"] by (simp add: n revisited_state_fields)
  have c4: "\<exists>u. returned (BaseAgent_call example_world writer_agent revisited_state) = Inr u
         \<and> distinct (keys u)
         \<and> dict_get u ''last_modified_by'' = Some (PStr ''Writer'')
         \<and> dict_keys2 u ''agent_status'' = Some [''Researcher'', ''Writer'']
         \<and> dict_get2 u ''agent_status'' ''Writer'' = Some (PStatus COMPLETED)
         \<and> dict_get2 u ''agent_status'' ''Researcher'' = Some (PStatus COMPLETED)
         \<and> dict_keys2 u ''execution_time'' = Some [''Researcher'', ''Writer'']
         \<and> dict_get2 u ''execution_time'' ''Writer'' = Some (PFloat 4)
         \<and> dict_get2 u ''execution_time'' ''Researcher'' = Some (PFloat 3)"
    using u(1) u(2) u(3) [unfolded n] u(4) [unfolded kk] u(5) [unfolded n] rs
      ut(1) [unfolded kk] ut(2) [unfolded n four] rt
    by (intro exI [where x = u] conjI)
  from bad1 bad2 ok c1 c5 pre(2) [unfolded n] pre(4) [unfolded n] c2 c4 show ?thesis
    by (intro conjI)
qed

section \<open>Search providers absorb their failures\<close>

text \<open>
  Claim C9. No provider's \<^verbatim>\<open>search\<close> ever raises an exception to its caller: whenever
  the body of its \<^verbatim>\<open>try\<close> block raises one, the result is the empty list. In particular
  this is so when the DuckDuckGo library raises, when the HTTP request of a
  key-authenticated provider raises (unreachable endpoint, timeout), when the response
  has an error status, and when its body does not parse.
\<close>

theorem provider_failures_absorbed:
  "(\<forall>msg. provider_search nw p q n \<noteq> Inl (Exception msg))
   \<and> (provider_try nw p q n = Inl (Exception m) \<longrightarrow> provider_search nw p q n = Inr [])
   \<and> (ddgs_text nw q n = Inl (Exception m) \<longrightarrow>
        provider_search nw (DuckDuckGoSearch tmo) q n = Inr [])
   \<and> ((\<forall>url payload headers. http_post nw url payload headers tmo = Inl (Exception m)) \<longrightarrow>
        provider_search nw (SerperSearch key tmo) q n = Inr []
        \<and> provider_search nw (TavilySearch key tmo) q n = Inr [])
   \<and> ((\<forall>url payload headers. \<exists>resp. http_post nw url payload headers tmo = Inr resp
          \<and> 400 \<le> status_code resp \<and> status_code resp < 600) \<longrightarrow>
        provider_search nw (SerperSearch key tmo) q n = Inr []
        \<and> provider_search nw (TavilySearch key tmo) q n = Inr [])
   \<and> ((\<forall>url payload headers. \<exists>resp. http_post nw url payload headers tmo = Inr resp
          \<and> json_body resp = Inl (Exception m)) \<longrightarrow>
        provider_search nw (SerperSearch key tmo) q n = Inr []
        \<and> provider_search nw (TavilySearch key tmo) q n = Inr [])"
proof (intro conjI impI allI)
  fix msg
  show "provider_search nw p q n \<noteq> Inl (Exception msg)"
    unfolding provider_search_handler by (rule except_Exception_empty_no_Exception)
next
  assume "provider_try nw p q n = Inl (Exception m)"
  then show "provider_search nw p q n = Inr []"
    unfolding provider_search_handler by (rule except_Exception_empty_caught)
next
  assume "ddgs_text nw q n = Inl (Exception m)"
  then show "provider_search nw (DuckDuckGoSearch tmo) q n = Inr []"
    by (simp add: DuckDuckGoSearch_search_def DuckDuckGoSearch_try_def except_Exception_empty_def)
next
  assume h: "\<forall>url payload headers. http_post nw url payload headers tmo = Inl (Exception m)"
  show "provider_search nw (SerperSearch key tmo) q n = Inr []"
    by (simp add: SerperSearch_search_def SerperSearch_try_def read_response_transport h)
  show "provider_search nw (TavilySearch key tmo) q n = Inr []"
    by (simp add: TavilySearch_search_def TavilySearch_try_def read_response_transport h)
next
  assume h: "\<forall>url payload headers. \<exists>resp. http_post nw url payload headers tmo = Inr resp
          \<and> 400 \<le> status_code resp \<and> status_code resp < 600"
  show "provider_search nw (SerperSearch key tmo) q n = Inr []"
    unfolding provider_search.simps SerperSearch_search_def SerperSearch_try_def
    using h by (blast intro: read_response_status)
  show "provider_search nw (TavilySearch key tmo) q n = Inr []"
    unfolding provider_search.simps TavilySearch_search_def TavilySearch_try_def
    using h by (blast intro: read_response_status)
next
  assume h: "\<forall>url payload headers. \<exists>resp. http_post nw url payload headers tmo = Inr resp
          \<and> json_body resp = Inl (Exception m)"
  show "provider_search nw (SerperSearch key tmo) q n = Inr []"
    unfolding provider_search.simps SerperSearch_search_def SerperSearch_try_def
    using h by (blast intro: read_response_parse)
  show "provider_search nw (TavilySearch key tmo) q n = Inr []"
    unfolding provider_search.simps TavilySearch_search_def TavilySearch_try_def
    using h by (blast intro: read_response_parse)
qed

theorem provider_failures_absorbed_witness:
  "ddgs_text unreachable_net ''rust'' 5 = Inl (Exception ''ConnectTimeout'')
   \<and> (\<forall>url payload headers. http_post unreachable_net url payload headers 10
          = Inl (Exception ''ConnectionError''))
   \<and> provider_search unreachable_net (DuckDuckGoSearch 10) ''rust'' 5 = Inr []
   \<and> provider_search unreachable_net (SerperSearch ''key'' 10) ''rust'' 5 = Inr []
   \<and> provider_search unreachable_net (TavilySearch ''key'' 10) ''rust'' 5 = Inr []"
proof -
  have d: "ddgs_text unreachable_net ''rust'' 5 = Inl (Exception ''ConnectTimeout'')"
    by (simp add: unreachable_net_def)
  have h: "\<forall>url payload headers. http_post unreachable_net url payload headers 10
          = Inl (Exception ''ConnectionError'')"
    by (simp add: unreachable_net_def)
  note t1 = provider_failures_absorbed [where nw = unreachable_net and q = "''rust''" and n = 5
      and m = "''ConnectTimeout''" and tmo = 10, THEN conjunct2, THEN conjunct2, THEN conjunct1,
      THEN mp, OF d]
  note t2 = provider_failures_absorbed [where nw = unreachable_net and q = "''rust''" and n = 5
      and m = "''ConnectionError''" and tmo = 10 and key = "''key''", THEN conjunct2, THEN conjunct2,
      THEN conjunct2, THEN conjunct1, THEN mp, OF h]
  from d h t1 t2 [THEN conjunct1] t2 [THEN conjunct2] show ?thesis
    by (intro conjI)
qed

section \<open>The per-call limit of the search tool\<close>

text \<open>
  Claim C10. \<^verbatim>\<open>SearchTool.search\<close> with the override 0, like with no override,
  delegates to the provider with the limit given to the constructor; any other override
  is passed on as it is. So an override of 0 does not ask the provider for zero results.
\<close>

theorem search_override_falsy_uses_default:
  "SearchTool_search nw tool q (Some 0) = provider_search nw (provider tool) q (max_results tool)
   \<and> SearchTool_search nw tool q None = provider_search nw (provider tool) q (max_results tool)
   \<and> (n \<noteq> 0 \<longrightarrow> SearchTool_search nw tool q (Some n) = provider_search nw (provider tool) q n)"
  by (simp add: SearchTool_search_def py_or_def)

theorem search_override_falsy_uses_default_witness:
  "(3::int) \<noteq> 0
   \<and> SearchTool_search answering_net example_tool ''rust'' (Some 3)
       = provider_search answering_net (provider example_tool) ''rust'' 3
   \<and> SearchTool_search answering_net example_tool ''rust'' (Some 0)
       = provider_search answering_net (SerperSearch ''key'' 10) ''rust'' 5
   \<and> provider_search answering_net (SerperSearch ''key'' 10) ''rust'' 5
       = Inr [[(''title'', JStr ''A''), (''link'', JStr ''a.org''), (''snippet'', JStr ''x'')],
              [(''title'', JStr ''B''), (''link'', JStr ''b.org''), (''snippet'', JStr [])]]
   \<and> provider_search answering_net (SerperSearch ''key'' 10) ''rust'' 0 = Inr []"
proof -
  have nz: "(3::int) \<noteq> 0" by simp
  have tool: "provider example_tool = SerperSearch ''key'' 10" "max_results example_tool = 5"
    by (simp_all add: example_tool_def)
  note t = search_override_falsy_uses_default [of answering_net example_tool "''rust''" 3]
  note t3 = t [THEN conjunct2, THEN conjunct2, THEN mp, OF nz]
  note t0 = t [THEN conjunct1, unfolded tool]
  have post: "http_post answering_net url payload headers tmo = Inr
         \<lparr> status_code = 200,
           json_body = Inr (JObj [(''organic'',
             JArr [JObj [(''title'', JStr ''A''), (''link'', JStr ''a.org''), (''snippet'', JStr ''x'')],
                   JObj [(''title'', JStr ''B''), (''link'', JStr ''b.org'')]])]) \<rparr>"
    for url payload headers tmo
    by (simp add: answering_net_def)
  have five: "provider_search answering_net (SerperSearch ''key'' 10) ''rust'' 5
       = Inr [[(''title'', JStr ''A''), (''link'', JStr ''a.org''), (''snippet'', JStr ''x'')],
              [(''title'', JStr ''B''), (''link'', JStr ''b.org''), (''snippet'', JStr [])]]"
    by (simp add: SerperSearch_search_def SerperSearch_try_def post read_response_def
        raise_for_status_def sliced_items_def dict_get_default_def py_slice_to_def
        result_record_def except_Exception_empty_def)
  have zero: "provider_search answering_net (SerperSearch ''key'' 10) ''rust'' 0 = Inr []"
    by (simp add: SerperSearch_search_def SerperSearch_try_def post read_response_def
        raise_for_status_def sliced_items_def dict_get_default_def py_slice_to_def
        result_record_def except_Exception_empty_def)
  from nz t3 t0 five zero show ?thesis
    by (intro conjI)
qed

end
